theory Spec2Isabelle
  imports Complex_Main
begin

section \<open>Arkanoid simulation core: data model\<close>

text \<open>
  The embedding follows \<^verbatim>\<open>ArkanoidImpl\<close> (arkanoid_impl.h and its implementation file).
  Conventions of the embedding:
  \<^item> C++ \<^verbatim>\<open>float\<close> values are modelled as \<^typ>\<open>real\<close>: comparisons, \<^verbatim>\<open>std::min\<close>,
    \<^verbatim>\<open>std::max\<close> and the arithmetic are the exact ones, rounding is not modelled.
  \<^item> C++ \<^verbatim>\<open>int\<close> values are modelled as \<^typ>\<open>int\<close>; integer division is the truncating
    one of C++ (\<open>tdiv\<close>). Signed overflow is undefined behaviour in C++ and is not modelled.
  \<^item> Member variables that are initialised in the header and never assigned anywhere
    (\<^verbatim>\<open>score_per_dollar\<close>, \<^verbatim>\<open>shop_message_duration\<close>, \<^verbatim>\<open>ball_min_speed\<close>, ...) are constants.
  \<^item> The function-local \<^verbatim>\<open>static float freeze_timer\<close> of \<^verbatim>\<open>integrate_ball\<close> is a field of
    the state.
  \<^item> Purely cosmetic state (particles, ball trail, colours, glow phase, screen scale,
    debug hit records) has no influence on any other field and is left out.
  \<^item> The widgets that the draw functions show (shop buttons, debug sliders, the pause
    button) belong to the rendering side and are not modelled; \<^verbatim>\<open>update\<close> and \<^verbatim>\<open>reset\<close>
    only read the fields those widgets set.
  \<^item> Field names of the small structs carry a prefix, since record fields are global
    constants: \<^verbatim>\<open>Vect::x\<close> is \<open>vx\<close>, \<^verbatim>\<open>Rect::pos\<close> is \<open>rpos\<close>, \<^verbatim>\<open>Brick::alive\<close> is
    \<open>brick_alive\<close>, \<^verbatim>\<open>Bonus::type\<close> is \<open>bonus_type\<close>, and so on.
\<close>

text \<open>
  Modelled from the spec: the vector and rectangle primitives \<^verbatim>\<open>Vect\<close> and \<^verbatim>\<open>Rect\<close> are
  declared in a base header that is missing from the sources; the implementation uses
  them as a pair of float coordinates and as a position with a size.
\<close>

record Vect =
  vx :: real
  vy :: real

record Rect =
  rpos :: Vect
  rsize :: Vect

datatype GameState = Playing | Win | Lose

datatype BonusType =
  SpeedUp | EnlargePaddle | ExtraLife | Pierce | SlowMo | Points | Magnet | ScoreMult | NukeRow

record Brick =
  brick_rect :: Rect
  brick_alive :: bool
  brick_score :: int
  brick_bonus :: bool
  hit_points :: int

record Bonus =
  bonus_rect :: Rect
  bonus_type :: BonusType
  bonus_vel :: Vect
  bonus_alive :: bool
  bonus_points :: int

text \<open>
  Modelled from the spec: \<^verbatim>\<open>ArkanoidSettings\<close> is declared in arkanoid.h, which is missing
  from the sources. The record holds the fields that the implementation reads, the ones
  the spec lists for the settings struct: world size, ball radius, ball speed, paddle
  width, brick column and row counts and paddings.
\<close>

record ArkanoidSettings =
  s_world_size :: Vect
  s_ball_radius :: real
  s_ball_speed :: real
  s_carriage_width :: real
  s_bricks_columns_count :: int
  s_bricks_rows_count :: int
  s_bricks_columns_padding :: real
  s_bricks_rows_padding :: real

text \<open>
  Everything the implementation takes from outside is a parameter, collected in one
  environment: the static limits of \<^verbatim>\<open>ArkanoidSettings\<close> (their values are fixed in the
  missing arkanoid.h) and the results of the pseudo-random library calls.
  \<^item> \<open>c_rand k\<close> is the value of the \<open>k\<close>-th call of \<^verbatim>\<open>rand()\<close>.
  \<^item> \<open>level_unif k\<close> and \<open>level_hp k\<close> are the two draws that \<^verbatim>\<open>build_level\<close> takes for its
    \<open>k\<close>-th brick from \<^verbatim>\<open>std::mt19937 rng(1337)\<close>.
  \<^item> \<open>mt_choice seed\<close> is the first draw of \<^verbatim>\<open>std::uniform_int_distribution<int>(0, 6)\<close>
    from a \<^verbatim>\<open>std::mt19937\<close> seeded with \<open>seed\<close>.
\<close>

record env =
  ball_speed_min :: real
  ball_speed_max :: real
  carriage_width_min :: real
  bricks_columns_min :: int
  bricks_columns_max :: int
  bricks_rows_min :: int
  bricks_rows_max :: int
  bricks_columns_padding_min :: real
  bricks_columns_padding_max :: real
  bricks_rows_padding_min :: real
  bricks_rows_padding_max :: real
  c_rand :: "nat \<Rightarrow> nat"
  level_unif :: "nat \<Rightarrow> real"
  level_hp :: "nat \<Rightarrow> int"
  mt_choice :: "nat \<Rightarrow> int"

record game =
  settings :: ArkanoidSettings
  world_size :: Vect
  bricks :: "Brick list"
  bricks_cols :: int
  bricks_rows :: int
  brick_size :: Vect
  bricks_origin :: Vect
  destroyed_bricks_count :: int
  bonuses :: "Bonus list"
  carriage_world :: Rect
  ball_pos :: Vect
  ball_vel :: Vect
  ball_radius :: real
  ball_speed_target :: real
  ball_speed_cur :: real
  state :: GameState
  score :: int
  lives :: int
  combo_timer :: real
  combo_mult :: int
  pierce_mode :: bool
  pierce_timer :: real
  slowmo_mode :: bool
  slowmo_timer :: real
  cheat_enlarge_paddle :: bool
  cheat_extra_life :: bool
  cheat_speed_lock :: bool
  magnet_active :: bool
  magnet_timer :: real
  score_mult_active :: bool
  score_mult_timer :: real
  score_mult_value :: int
  cheat_invincible :: bool
  cheat_freeze_ball :: bool
  ball_launched :: bool
  paused :: bool
  balance :: int
  total_money :: int
  money_from_score_accumulator :: int
  shop_message :: string
  shop_message_timer :: real
  freeze_timer :: real
  rand_calls :: nat

subsection \<open>Constants of the class\<close>

definition carriage_height :: real where "carriage_height = 18"
definition carriage_speed :: real where "carriage_speed = 500"
definition ball_min_speed :: real where "ball_min_speed = 60"
definition ball_max_speed :: real where "ball_max_speed = 5000"
definition combo_window :: real where "combo_window = 12 / 10"
definition pierce_duration :: real where "pierce_duration = 2"
definition slowmo_factor :: real where "slowmo_factor = 45 / 100"
definition magnet_duration :: real where "magnet_duration = 6"
definition magnet_strength :: real where "magnet_strength = 600"
definition score_mult_duration :: real where "score_mult_duration = 8"
definition bricks_to_speedup :: int where "bricks_to_speedup = 10"
definition speedup_factor :: real where "speedup_factor = 11 / 10"
definition score_per_dollar :: int where "score_per_dollar = 100"
definition shop_message_duration :: real where "shop_message_duration = 25 / 10"

subsection \<open>Utility helpers\<close>

definition clampf :: "real \<Rightarrow> real \<Rightarrow> real \<Rightarrow> real" where
  "clampf v a b = max a (min b v)"

definition sgnf :: "real \<Rightarrow> real" where
  "sgnf v = (if v < 0 then - 1 else 1)"

text \<open>Integer division and remainder of C++: the quotient is truncated towards zero.\<close>

definition tdiv :: "int \<Rightarrow> int \<Rightarrow> int" where
  "tdiv a b = (if (a < 0) = (b < 0) then \<bar>a\<bar> div \<bar>b\<bar> else - (\<bar>a\<bar> div \<bar>b\<bar>))"

definition tmod :: "int \<Rightarrow> int \<Rightarrow> int" where
  "tmod a b = a - tdiv a b * b"

text \<open>The conversion \<^verbatim>\<open>(int)f\<close> of a float: truncation towards zero.\<close>

definition trunc_int :: "real \<Rightarrow> int" where
  "trunc_int v = (if v < 0 then - \<lfloor>- v\<rfloor> else \<lfloor>v\<rfloor>)"

definition rect_center :: "Rect \<Rightarrow> Vect" where
  "rect_center r =
     \<lparr>vx = vx (rpos r) + vx (rsize r) * (1 / 2), vy = vy (rpos r) + vy (rsize r) * (1 / 2)\<rparr>"

definition make_rect_xywh :: "real \<Rightarrow> real \<Rightarrow> real \<Rightarrow> real \<Rightarrow> Rect" where
  "make_rect_xywh x y w h = \<lparr>rpos = \<lparr>vx = x, vy = y\<rparr>, rsize = \<lparr>vx = w, vy = h\<rparr>\<rparr>"

text \<open>\<^verbatim>\<open>std::to_string\<close> on an \<^verbatim>\<open>int\<close>: the decimal digits, with a minus sign when negative.\<close>

definition digit_char :: "nat \<Rightarrow> char" where
  "digit_char d =
     (if d = 0 then CHR ''0'' else if d = 1 then CHR ''1'' else if d = 2 then CHR ''2''
      else if d = 3 then CHR ''3'' else if d = 4 then CHR ''4'' else if d = 5 then CHR ''5''
      else if d = 6 then CHR ''6'' else if d = 7 then CHR ''7'' else if d = 8 then CHR ''8''
      else CHR ''9'')"

function dec_digits :: "nat \<Rightarrow> string" where
  "dec_digits n =
     (if n < 10 then [digit_char n] else dec_digits (n div 10) @ [digit_char (n mod 10)])"
  by pat_completeness auto
termination
  by (relation "measure (\<lambda>n. n)") auto

declare dec_digits.simps [simp del]

definition to_string :: "int \<Rightarrow> string" where
  "to_string i = (if i < 0 then CHR ''-'' # dec_digits (nat (- i)) else dec_digits (nat i))"

section \<open>Money and shop\<close>

text \<open>
  \<^verbatim>\<open>bool try_purchase(int cost)\<close>: the result is the returned flag and the state after
  the call.
\<close>

definition try_purchase :: "int \<Rightarrow> game \<Rightarrow> bool \<times> game" where
  "try_purchase cost s =
     (if cost \<le> 0 then (False, s)
      else if balance s \<ge> cost then
        (True, s\<lparr>balance := balance s - cost,
                 shop_message := ''Purchased for $'' @ to_string cost @ ''!'',
                 shop_message_timer := shop_message_duration\<rparr>)
      else
        (False, s\<lparr>shop_message := ''Not enough $'',
                  shop_message_timer := shop_message_duration\<rparr>))"

definition add_money :: "int \<Rightarrow> game \<Rightarrow> game" where
  "add_money amount s =
     (if amount \<le> 0 then s
      else s\<lparr>balance := balance s + amount,
             total_money := total_money s + amount,
             shop_message := ''Gained $'' @ to_string amount,
             shop_message_timer := shop_message_duration\<rparr>)"

definition grant_money_from_score :: "game \<Rightarrow> game" where
  "grant_money_from_score s0 =
     (let s = (if money_from_score_accumulator s0 < 0
               then s0\<lparr>money_from_score_accumulator := 0\<rparr> else s0)
      in if score s \<le> money_from_score_accumulator s then s
         else
           let delta_points = score s - money_from_score_accumulator s;
               dollars = tdiv delta_points score_per_dollar
           in if dollars > 0 then
                (let s1 = add_money dollars s
                 in s1\<lparr>money_from_score_accumulator :=
                          money_from_score_accumulator s1 + dollars * score_per_dollar\<rparr>)
              else s)"

section \<open>Vectors\<close>

text \<open>
  Modelled from the spec: the operators of \<^verbatim>\<open>Vect\<close> and its methods \<^verbatim>\<open>Length\<close>,
  \<^verbatim>\<open>LengthSquared\<close> and \<^verbatim>\<open>Normalized\<close> are declared in the missing base header. The
  operators are the componentwise ones, \<^verbatim>\<open>Length\<close> is the Euclidean norm (the spec's
  \<open>|velocity|\<close>) and \<^verbatim>\<open>Normalized\<close> divides by it; the implementation calls it only on
  a vector longer than \<open>1e-4\<close>.
\<close>

definition vadd :: "Vect \<Rightarrow> Vect \<Rightarrow> Vect" where
  "vadd a b = \<lparr>vx = vx a + vx b, vy = vy a + vy b\<rparr>"

definition vsub :: "Vect \<Rightarrow> Vect \<Rightarrow> Vect" where
  "vsub a b = \<lparr>vx = vx a - vx b, vy = vy a - vy b\<rparr>"

definition vscale :: "Vect \<Rightarrow> real \<Rightarrow> Vect" where
  "vscale a f = \<lparr>vx = vx a * f, vy = vy a * f\<rparr>"

definition LengthSquared :: "Vect \<Rightarrow> real" where
  "LengthSquared a = vx a * vx a + vy a * vy a"

definition Length :: "Vect \<Rightarrow> real" where
  "Length a = sqrt (LengthSquared a)"

definition Normalized :: "Vect \<Rightarrow> Vect" where
  "Normalized a = vscale a (1 / Length a)"

section \<open>Reset and level build\<close>

text \<open>
  One brick of the grid, at row \<open>r\<close> and column \<open>c\<close>; \<open>k\<close> counts the bricks built so far
  and selects the two random draws of this brick.
\<close>

definition make_brick ::
  "env \<Rightarrow> Vect \<Rightarrow> real \<Rightarrow> real \<Rightarrow> real \<Rightarrow> real \<Rightarrow> int \<Rightarrow> nat \<Rightarrow> nat \<Rightarrow> nat \<Rightarrow> Brick" where
  "make_brick e origin bw bh pad_x pad_y rows r c k =
     (let x = vx origin + real c * (bw + pad_x);
          y = vy origin + real r * (bh + pad_y);
          p = level_unif e k;
          rnd = level_hp e k
      in \<lparr>brick_rect = make_rect_xywh x y bw bh,
          brick_alive = True,
          brick_score = 10 + (rows - 1 - int r) * 2,
          brick_bonus = (p < 15 / 100),
          hit_points = (if rnd < 5 then 3 else if rnd < 25 then 2 else 1)\<rparr>)"

definition build_level :: "env \<Rightarrow> ArkanoidSettings \<Rightarrow> game \<Rightarrow> game" where
  "build_level e cfg s =
     (let cols = trunc_int (clampf (real_of_int (s_bricks_columns_count cfg))
                   (real_of_int (bricks_columns_min e)) (real_of_int (bricks_columns_max e)));
          rows = trunc_int (clampf (real_of_int (s_bricks_rows_count cfg))
                   (real_of_int (bricks_rows_min e)) (real_of_int (bricks_rows_max e)));
          pad_x = clampf (s_bricks_columns_padding cfg)
                   (bricks_columns_padding_min e) (bricks_columns_padding_max e);
          pad_y = clampf (s_bricks_rows_padding cfg)
                   (bricks_rows_padding_min e) (bricks_rows_padding_max e);
          top_margin = 40;
          side_margin = 20;
          area_w = vx (world_size s) - side_margin * 2;
          area_h = vy (world_size s) * (45 / 100) - top_margin;
          total_pad_x = pad_x * real_of_int (cols - 1);
          total_pad_y = pad_y * real_of_int (rows - 1);
          bw = max 5 ((area_w - total_pad_x) / real_of_int cols);
          bh = max 8 ((area_h - total_pad_y) / real_of_int rows);
          origin = \<lparr>vx = side_margin, vy = top_margin\<rparr>
      in s\<lparr>bricks := concat (map (\<lambda>r. map (\<lambda>c.
                  make_brick e origin bw bh pad_x pad_y rows r c (r * nat cols + c))
                  [0..<nat cols]) [0..<nat rows]),
            bricks_cols := cols,
            bricks_rows := rows,
            brick_size := \<lparr>vx = bw, vy = bh\<rparr>,
            bricks_origin := origin\<rparr>)"

definition reset :: "env \<Rightarrow> ArkanoidSettings \<Rightarrow> game \<Rightarrow> game" where
  "reset e cfg s =
     (let ws = \<lparr>vx = vx (s_world_size cfg), vy = vy (s_world_size cfg)\<rparr>;
          tgt = clampf (s_ball_speed cfg) (ball_speed_min e) (ball_speed_max e);
          cw = clampf (s_carriage_width cfg) (carriage_width_min e) (vx ws * (95 / 100));
          cy = vy ws - 40;
          cx = (vx ws - cw) * (1 / 2);
          carr = make_rect_xywh cx cy cw carriage_height;
          carr_center = rect_center carr
      in build_level e cfg
          (s\<lparr>settings := cfg,
             world_size := ws,
             ball_radius := s_ball_radius cfg,
             ball_speed_target := tgt,
             ball_speed_cur := tgt,
             carriage_world := carr,
             ball_pos := \<lparr>vx = vx carr_center, vy = vy (rpos carr) - s_ball_radius cfg - 1\<rparr>,
             ball_vel := vscale \<lparr>vx = 7071067 / 10000000, vy = - (7071067 / 10000000)\<rparr> tgt,
             ball_launched := True,
             state := Playing,
             money_from_score_accumulator := 0,
             score := 0,
             balance := 0,
             lives := 3,
             combo_timer := 0,
             combo_mult := 1,
             pierce_mode := False,
             pierce_timer := 0,
             slowmo_mode := False,
             slowmo_timer := 0,
             bonuses := [],
             cheat_enlarge_paddle := False,
             cheat_extra_life := False,
             cheat_speed_lock := False,
             cheat_invincible := False,
             cheat_freeze_ball := False,
             magnet_active := False,
             magnet_timer := 0,
             score_mult_active := False,
             score_mult_timer := 0,
             score_mult_value := 1,
             destroyed_bricks_count := 0,
             paused := False\<rparr>))"

text \<open>
  The state of a newly constructed object, from the member initialisers of the header.
  The default-constructed settings are those of the missing arkanoid.h and are a parameter.
\<close>

definition fresh :: "ArkanoidSettings \<Rightarrow> game" where
  "fresh dflt =
     \<lparr>settings = dflt,
      world_size = \<lparr>vx = 800, vy = 600\<rparr>,
      bricks = [],
      bricks_cols = 0,
      bricks_rows = 0,
      brick_size = \<lparr>vx = 0, vy = 0\<rparr>,
      bricks_origin = \<lparr>vx = 0, vy = 0\<rparr>,
      destroyed_bricks_count = 0,
      bonuses = [],
      carriage_world = \<lparr>rpos = \<lparr>vx = 0, vy = 0\<rparr>, rsize = \<lparr>vx = 100, vy = 20\<rparr>\<rparr>,
      ball_pos = \<lparr>vx = 0, vy = 0\<rparr>,
      ball_vel = \<lparr>vx = 0, vy = 0\<rparr>,
      ball_radius = 10,
      ball_speed_target = 150,
      ball_speed_cur = 150,
      state = Playing,
      score = 0,
      lives = 3,
      combo_timer = 0,
      combo_mult = 1,
      pierce_mode = False,
      pierce_timer = 0,
      slowmo_mode = False,
      slowmo_timer = 0,
      cheat_enlarge_paddle = False,
      cheat_extra_life = False,
      cheat_speed_lock = False,
      magnet_active = False,
      magnet_timer = 0,
      score_mult_active = False,
      score_mult_timer = 0,
      score_mult_value = 1,
      cheat_invincible = False,
      cheat_freeze_ball = False,
      ball_launched = True,
      paused = False,
      balance = 0,
      total_money = 0,
      money_from_score_accumulator = 0,
      shop_message = [],
      shop_message_timer = 0,
      freeze_timer = 0,
      rand_calls = 0\<rparr>"

section \<open>Controls and cheats\<close>

text \<open>The key states that \<^verbatim>\<open>update\<close> reads from \<^verbatim>\<open>io.KeysDown\<close>.\<close>

record keys =
  key_A :: bool
  key_D :: bool
  key_R :: bool
  key_1 :: bool
  key_2 :: bool
  key_3 :: bool
  key_C :: bool
  key_X :: bool
  key_T :: bool
  key_Q :: bool
  key_Y :: bool
  key_E :: bool
  key_N :: bool

definition set_carriage_x :: "real \<Rightarrow> game \<Rightarrow> game" where
  "set_carriage_x v s =
     s\<lparr>carriage_world := (carriage_world s)\<lparr>rpos := (rpos (carriage_world s))\<lparr>vx := v\<rparr>\<rparr>\<rparr>"

definition set_carriage_w :: "real \<Rightarrow> game \<Rightarrow> game" where
  "set_carriage_w v s =
     s\<lparr>carriage_world := (carriage_world s)\<lparr>rsize := (rsize (carriage_world s))\<lparr>vx := v\<rparr>\<rparr>\<rparr>"

definition set_carriage_h :: "real \<Rightarrow> game \<Rightarrow> game" where
  "set_carriage_h v s =
     s\<lparr>carriage_world := (carriage_world s)\<lparr>rsize := (rsize (carriage_world s))\<lparr>vy := v\<rparr>\<rparr>\<rparr>"

definition clamp_carriage :: "game \<Rightarrow> game" where
  "clamp_carriage s =
     set_carriage_x (clampf (vx (rpos (carriage_world s))) 0
        (vx (world_size s) - vx (rsize (carriage_world s)))) s"

text \<open>The paddle movement block at the head of \<^verbatim>\<open>handle_cheats_and_controls\<close>.\<close>

definition controls_paddle :: "env \<Rightarrow> keys \<Rightarrow> real \<Rightarrow> game \<Rightarrow> game" where
  "controls_paddle e io dt s =
     (let dx = (if key_D io then 1 else 0) - (if key_A io then 1 else (0::real));
          s1 = set_carriage_x (vx (rpos (carriage_world s)) + dx * carriage_speed * dt) s;
          s2 = (if cheat_enlarge_paddle s1
                then set_carriage_w (clampf (s_carriage_width (settings s1) * (16 / 10))
                       (carriage_width_min e) (vx (world_size s1) * (95 / 100))) s1
                else set_carriage_w (max 20 (vx (rsize (carriage_world s1)))) s1);
          s3 = set_carriage_h carriage_height s2
      in clamp_carriage s3)"

text \<open>
  \<^verbatim>\<open>if (io.KeysDown[K] && try_purchase(cost)) effect\<close>: the purchase is attempted only when
  the key is down, and the effect applies only when it succeeds.
\<close>

definition buy :: "bool \<Rightarrow> int \<Rightarrow> (game \<Rightarrow> game) \<Rightarrow> game \<Rightarrow> game" where
  "buy k cost effect s =
     (if k then (case try_purchase cost s of (ok, s') \<Rightarrow> if ok then effect s' else s') else s)"

text \<open>The hotkey lines of \<^verbatim>\<open>handle_cheats_and_controls\<close>, one definition per key.\<close>

definition hotkey_1 :: "keys \<Rightarrow> game \<Rightarrow> game" where
  "hotkey_1 io s =
     (if key_1 io
      then s\<lparr>ball_speed_target := max ((1 / 2) * ball_speed_target s) ball_min_speed\<rparr>
      else s)"

definition hotkey_2 :: "keys \<Rightarrow> game \<Rightarrow> game" where
  "hotkey_2 io s =
     (if key_2 io then s\<lparr>ball_speed_target := s_ball_speed (settings s)\<rparr> else s)"

definition hotkey_3 :: "keys \<Rightarrow> game \<Rightarrow> game" where
  "hotkey_3 io s =
     (if key_3 io
      then s\<lparr>ball_speed_target := min ((15 / 10) * ball_speed_target s) ball_max_speed\<rparr>
      else s)"

definition hotkey_C :: "keys \<Rightarrow> game \<Rightarrow> game" where
  "hotkey_C io s =
     (if key_C io then s\<lparr>pierce_mode := True, pierce_timer := pierce_duration\<rparr> else s)"

definition hotkey_X :: "keys \<Rightarrow> game \<Rightarrow> game" where
  "hotkey_X io s =
     buy (key_X io) 10 (\<lambda>u. u\<lparr>magnet_active := True, magnet_timer := magnet_duration\<rparr>) s"

definition hotkey_T :: "keys \<Rightarrow> game \<Rightarrow> game" where
  "hotkey_T io s =
     buy (key_T io) 15
       (\<lambda>u. u\<lparr>score_mult_active := True, score_mult_timer := score_mult_duration,
               score_mult_value := 3\<rparr>) s"

definition hotkey_Q :: "keys \<Rightarrow> game \<Rightarrow> game" where
  "hotkey_Q io s = buy (key_Q io) 10 (\<lambda>u. u\<lparr>cheat_freeze_ball := True\<rparr>) s"

definition hotkey_Y :: "keys \<Rightarrow> game \<Rightarrow> game" where
  "hotkey_Y io s =
     buy (key_Y io) 60
       (\<lambda>u. u\<lparr>cheat_invincible := True, shop_message_timer := shop_message_duration\<rparr>) s"

definition hotkey_E :: "keys \<Rightarrow> game \<Rightarrow> game" where
  "hotkey_E io s = buy (key_E io) 20 (\<lambda>u. u\<lparr>lives := lives u + 1\<rparr>) s"

definition controls_hotkeys :: "keys \<Rightarrow> game \<Rightarrow> game" where
  "controls_hotkeys io s =
     hotkey_E io (hotkey_Y io (hotkey_Q io (hotkey_T io (hotkey_X io
       (hotkey_C io (hotkey_3 io (hotkey_2 io (hotkey_1 io s))))))))"

text \<open>
  The body of the nuke-row loop for one brick, and the loop over the brick vector. The loop
  returns the bricks as it leaves them together with the state.
\<close>

definition count_destroyed :: "game \<Rightarrow> game" where
  "count_destroyed s =
     (let s1 = s\<lparr>destroyed_bricks_count := destroyed_bricks_count s + 1\<rparr>
      in if tmod (destroyed_bricks_count s1) bricks_to_speedup = 0
         then s1\<lparr>ball_speed_target :=
                   clampf (ball_speed_target s1 * speedup_factor) ball_min_speed ball_max_speed\<rparr>
         else s1)"

definition nuke_brick :: "Brick \<Rightarrow> game \<Rightarrow> Brick \<times> game" where
  "nuke_brick b s =
     (if \<not> brick_alive b then (b, s)
      else if vy (ball_pos s) \<ge> vy (rpos (brick_rect b)) \<and>
              vy (ball_pos s) \<le> vy (rpos (brick_rect b)) + vy (rsize (brick_rect b))
      then (b\<lparr>brick_alive := False\<rparr>,
            count_destroyed (s\<lparr>score := score s + brick_score b * score_mult_value s\<rparr>))
      else (b, s))"

fun nuke_row :: "Brick list \<Rightarrow> game \<Rightarrow> Brick list \<times> game" where
  "nuke_row [] s = ([], s)"
| "nuke_row (b # bs) s =
     (case nuke_brick b s of (b', s1) \<Rightarrow>
        (case nuke_row bs s1 of (bs', s2) \<Rightarrow> (b' # bs', s2)))"

definition controls_nuke :: "keys \<Rightarrow> game \<Rightarrow> game" where
  "controls_nuke io s =
     (if key_N io then (case nuke_row (bricks s) s of (bs, s') \<Rightarrow> s'\<lparr>bricks := bs\<rparr>) else s)"

text \<open>
  The rest of \<^verbatim>\<open>handle_cheats_and_controls\<close>, one definition per line of the source:
  one-shot cheats, buff timers, speed interpolation, pierce, combo and message timers.
\<close>

definition cheat_one_shots :: "game \<Rightarrow> game" where
  "cheat_one_shots s =
     (let s1 = (if cheat_extra_life s
                then s\<lparr>lives := lives s + 1, cheat_extra_life := False\<rparr> else s)
      in if cheat_speed_lock s1 then s1\<lparr>ball_speed_target := ball_speed_cur s1\<rparr> else s1)"

definition tick_magnet :: "real \<Rightarrow> game \<Rightarrow> game" where
  "tick_magnet dt s =
     (if magnet_active s
      then (if magnet_timer s - dt \<le> 0
            then s\<lparr>magnet_active := False, magnet_timer := 0\<rparr>
            else s\<lparr>magnet_timer := magnet_timer s - dt\<rparr>)
      else s)"

definition tick_score_mult :: "real \<Rightarrow> game \<Rightarrow> game" where
  "tick_score_mult dt s =
     (if score_mult_active s
      then (if score_mult_timer s - dt \<le> 0
            then s\<lparr>score_mult_active := False, score_mult_value := 1, score_mult_timer := 0\<rparr>
            else s\<lparr>score_mult_timer := score_mult_timer s - dt\<rparr>)
      else s)"

definition smooth_speed :: "real \<Rightarrow> game \<Rightarrow> game" where
  "smooth_speed dt s =
     (let accel = 800
      in if ball_speed_cur s < ball_speed_target s
         then s\<lparr>ball_speed_cur := min (ball_speed_target s) (ball_speed_cur s + accel * dt)\<rparr>
         else if ball_speed_cur s > ball_speed_target s
         then s\<lparr>ball_speed_cur := max (ball_speed_target s) (ball_speed_cur s - accel * dt)\<rparr>
         else s)"

definition tick_pierce :: "real \<Rightarrow> game \<Rightarrow> game" where
  "tick_pierce dt s =
     (if pierce_mode s
      then (if pierce_timer s - dt \<le> 0
            then s\<lparr>pierce_mode := False, pierce_timer := 0\<rparr>
            else s\<lparr>pierce_timer := pierce_timer s - dt\<rparr>)
      else s)"

definition tick_combo :: "real \<Rightarrow> game \<Rightarrow> game" where
  "tick_combo dt s =
     (if combo_timer s > 0
      then (if combo_timer s - dt \<le> 0
            then s\<lparr>combo_mult := 1, combo_timer := 0\<rparr>
            else s\<lparr>combo_timer := combo_timer s - dt\<rparr>)
      else s)"

definition tick_shop_message :: "real \<Rightarrow> game \<Rightarrow> game" where
  "tick_shop_message dt s =
     (if shop_message s \<noteq> []
      then (if shop_message_timer s - dt \<le> 0
            then s\<lparr>shop_message_timer := shop_message_timer s - dt, shop_message := []\<rparr>
            else s\<lparr>shop_message_timer := shop_message_timer s - dt\<rparr>)
      else s)"

definition controls_timers :: "real \<Rightarrow> game \<Rightarrow> game" where
  "controls_timers dt s =
     tick_shop_message dt (tick_combo dt (tick_pierce dt (smooth_speed dt
       (tick_score_mult dt (tick_magnet dt (cheat_one_shots s))))))"

definition handle_cheats_and_controls :: "env \<Rightarrow> keys \<Rightarrow> real \<Rightarrow> game \<Rightarrow> game" where
  "handle_cheats_and_controls e io dt s =
     controls_timers dt (controls_nuke io (controls_hotkeys io (controls_paddle e io dt s)))"

section \<open>Ball integration\<close>

text \<open>\<^verbatim>\<open>rand()\<close>: the next value of the external sequence.\<close>

definition c_rand_next :: "env \<Rightarrow> game \<Rightarrow> nat \<times> game" where
  "c_rand_next e s = (c_rand e (rand_calls s), s\<lparr>rand_calls := rand_calls s + 1\<rparr>)"

definition reflect_ball :: "env \<Rightarrow> Vect \<Rightarrow> game \<Rightarrow> game" where
  "reflect_ball e normal s =
     (let v = ball_vel s;
          dot = vx v * vx normal + vy v * vy normal;
          reflected = vsub v (vscale normal (2 * dot));
          min_comp = (15 / 100) * ball_speed_cur s;
          (rx, s1) =
            (if \<bar>vx reflected\<bar> < min_comp
             then (if vx reflected = 0
                   then (case c_rand_next e s of (r, s') \<Rightarrow>
                           (sgnf (real_of_int ((int r mod 2) * 2 - 1)) * min_comp, s'))
                   else (sgnf (vx reflected) * min_comp, s))
             else (vx reflected, s));
          ry = (if \<bar>vy reflected\<bar> < min_comp
                then sgnf (if vy reflected = 0 then - 1 else vy reflected) * min_comp
                else vy reflected)
      in s1\<lparr>ball_vel := \<lparr>vx = rx, vy = ry\<rparr>\<rparr>)"

text \<open>
  \<^verbatim>\<open>integrate_ball\<close> in three parts, in the order of the source: the speed update, the
  rescaling of the velocity and the position advance; the side and top walls; the bottom.
\<close>

definition ball_advance :: "real \<Rightarrow> game \<Rightarrow> game" where
  "ball_advance dt s =
     (let s1 = (if cheat_freeze_ball s
                then (if freeze_timer s \<le> 0 then s\<lparr>freeze_timer := 5\<rparr> else s)
                       \<lparr>cheat_freeze_ball := False\<rparr>
                else s);
          s2 = (if freeze_timer s1 > 0
                then s1\<lparr>freeze_timer := freeze_timer s1 - dt,
                        ball_speed_cur := max ball_min_speed (ball_speed_target s1 * (2 / 10))\<rparr>
                else s1\<lparr>ball_speed_cur := ball_speed_target s1\<rparr>);
          cur_len = Length (ball_vel s2);
          s3 = (if cur_len > 1 / 1000000
                then s2\<lparr>ball_vel := vscale (ball_vel s2) (ball_speed_cur s2 / cur_len)\<rparr>
                else s2)
      in s3\<lparr>ball_pos := vadd (ball_pos s3) (vscale (ball_vel s3) dt)\<rparr>)"

definition set_ball_x :: "real \<Rightarrow> game \<Rightarrow> game" where
  "set_ball_x v s = s\<lparr>ball_pos := (ball_pos s)\<lparr>vx := v\<rparr>\<rparr>"

definition set_ball_y :: "real \<Rightarrow> game \<Rightarrow> game" where
  "set_ball_y v s = s\<lparr>ball_pos := (ball_pos s)\<lparr>vy := v\<rparr>\<rparr>"

definition ball_walls :: "env \<Rightarrow> game \<Rightarrow> game" where
  "ball_walls e s =
     (let s1 = (if vx (ball_pos s) < ball_radius s
                then (let overshoot = ball_radius s - vx (ball_pos s)
                      in reflect_ball e \<lparr>vx = 1, vy = 0\<rparr>
                           (set_ball_x (vx (ball_pos s) + overshoot * 2) s))
                else if vx (ball_pos s) > vx (world_size s) - ball_radius s
                then (let overshoot = vx (ball_pos s) - (vx (world_size s) - ball_radius s)
                      in reflect_ball e \<lparr>vx = - 1, vy = 0\<rparr>
                           (set_ball_x (vx (ball_pos s) - overshoot * 2) s))
                else s)
      in if vy (ball_pos s1) < ball_radius s1
         then (let overshoot = ball_radius s1 - vy (ball_pos s1)
               in reflect_ball e \<lparr>vx = 0, vy = 1\<rparr>
                    (set_ball_y (vy (ball_pos s1) + overshoot * 2) s1))
         else s1)"

definition ball_bottom :: "game \<Rightarrow> game" where
  "ball_bottom s =
     (if vy (ball_pos s) > vy (world_size s) + ball_radius s
      then (let s1 = (if \<not> cheat_invincible s then s\<lparr>lives := lives s - 1\<rparr> else s);
                s2 = s1\<lparr>combo_mult := 1, combo_timer := 0, pierce_mode := False, pierce_timer := 0\<rparr>
            in if lives s2 \<le> 0 then s2\<lparr>state := Lose\<rparr>
               else (let carr_center = rect_center (carriage_world s2)
                     in s2\<lparr>ball_pos := \<lparr>vx = vx carr_center,
                                         vy = vy (rpos (carriage_world s2)) - ball_radius s2 - 1\<rparr>,
                           ball_vel := vscale \<lparr>vx = 7071067 / 10000000, vy = - (7071067 / 10000000)\<rparr>
                                         (ball_speed_target s2)\<rparr>))
      else s)"

definition integrate_ball :: "env \<Rightarrow> real \<Rightarrow> game \<Rightarrow> game" where
  "integrate_ball e dt s = ball_bottom (ball_walls e (ball_advance dt s))"

section \<open>Collisions\<close>

text \<open>
  \<^verbatim>\<open>collide_ball_with_rect\<close>: \<open>None\<close> when the function returns false, otherwise the
  normal and the closest point it writes to its out-parameters.
\<close>

definition collide_ball_with_rect :: "Rect \<Rightarrow> game \<Rightarrow> (Vect \<times> Vect) option" where
  "collide_ball_with_rect r s =
     (let cx = clampf (vx (ball_pos s)) (vx (rpos r)) (vx (rpos r) + vx (rsize r));
          cy = clampf (vy (ball_pos s)) (vy (rpos r)) (vy (rpos r) + vy (rsize r));
          closest = \<lparr>vx = cx, vy = cy\<rparr>;
          d = vsub (ball_pos s) closest
      in if LengthSquared d > ball_radius s * ball_radius s then None
         else
           let dxLeft = \<bar>vx (ball_pos s) + ball_radius s - vx (rpos r)\<bar>;
               dxRight = \<bar>vx (rpos r) + vx (rsize r) - (vx (ball_pos s) - ball_radius s)\<bar>;
               dyTop = \<bar>vy (ball_pos s) + ball_radius s - vy (rpos r)\<bar>;
               dyBottom = \<bar>vy (rpos r) + vy (rsize r) - (vy (ball_pos s) - ball_radius s)\<bar>;
               minPen = min (min (min dxLeft dxRight) dyTop) dyBottom;
               normal = (if minPen = dxLeft then \<lparr>vx = - 1, vy = 0\<rparr>
                         else if minPen = dxRight then \<lparr>vx = 1, vy = 0\<rparr>
                         else if minPen = dyTop then \<lparr>vx = 0, vy = - 1\<rparr>
                         else \<lparr>vx = 0, vy = 1\<rparr>)
           in Some (normal, closest))"

definition bounce_from_carriage :: "Rect \<Rightarrow> Vect \<Rightarrow> game \<Rightarrow> game" where
  "bounce_from_carriage r hit_pos_world s =
     (let t = (vx hit_pos_world - vx (rpos r)) / max 1 (vx (rsize r));
          angle = (t - 1 / 2) * (12 / 10);
          dir = \<lparr>vx = sin angle, vy = - cos angle\<rparr>
      in s\<lparr>ball_vel := vscale dir (ball_speed_cur s)\<rparr>)"

definition spawn_bonus_at :: "Vect \<Rightarrow> BonusType \<Rightarrow> game \<Rightarrow> game" where
  "spawn_bonus_at world_pos t s =
     (let w = vx (brick_size s) * (7 / 10);
          h = vy (brick_size s) * (7 / 10);
          b = \<lparr>bonus_rect = make_rect_xywh (vx world_pos - w * (1 / 2)) (vy world_pos - h * (1 / 2)) w h,
               bonus_type = t,
               bonus_vel = \<lparr>vx = 0, vy = 80\<rparr>,
               bonus_alive = True,
               bonus_points = (if t = Points then 50 else 0)\<rparr>
      in s\<lparr>bonuses := bonuses s @ [b]\<rparr>)"

text \<open>
  The seed \<^verbatim>\<open>(uint32_t)(center.x * 1000 + center.y)\<close> and the \<^verbatim>\<open>switch\<close> on the drawn
  number; the switch has no default case, so a number outside \<open>0..6\<close> selects nothing.
\<close>

definition bonus_seed :: "Vect \<Rightarrow> nat" where
  "bonus_seed center = nat (trunc_int (vx center * 1000 + vy center) mod 2 ^ 32)"

definition bonus_of_choice :: "int \<Rightarrow> BonusType option" where
  "bonus_of_choice choice =
     (if choice = 0 then Some SpeedUp
      else if choice = 1 then Some EnlargePaddle
      else if choice = 2 then Some ExtraLife
      else if choice = 3 then Some Pierce
      else if choice = 4 then Some Points
      else if choice = 5 then Some Magnet
      else if choice = 6 then Some ScoreMult
      else None)"

definition drop_bonus :: "env \<Rightarrow> Brick \<Rightarrow> game \<Rightarrow> game" where
  "drop_bonus e b s =
     (if brick_bonus b
      then (let center = rect_center (brick_rect b);
                choice = mt_choice e (bonus_seed center)
            in case bonus_of_choice choice of
                 Some t \<Rightarrow> spawn_bonus_at center t s
               | None \<Rightarrow> s)
      else s)"

text \<open>
  The body of the brick loop of \<^verbatim>\<open>handle_collisions\<close> once the collision test of an alive
  brick has succeeded with normal \<open>n\<close>: the brick as the body leaves it, and the state.
\<close>

definition hit_brick :: "env \<Rightarrow> Brick \<Rightarrow> Vect \<Rightarrow> game \<Rightarrow> Brick \<times> game" where
  "hit_brick e b n s0 =
     (let s = (if \<not> pierce_mode s0 then reflect_ball e n s0 else s0)
      in if hit_points b > 1
         then (b\<lparr>hit_points := hit_points b - 1\<rparr>,
               s\<lparr>score := score s + tdiv (brick_score b) 3 * score_mult_value s,
                 combo_mult := min 9 (combo_mult s + 1),
                 combo_timer := combo_window\<rparr>)
         else (b\<lparr>brick_alive := False\<rparr>,
               count_destroyed
                 (drop_bonus e b
                    (s\<lparr>score := score s + brick_score b * combo_mult s * score_mult_value s,
                       combo_mult := min 9 (combo_mult s + 1),
                       combo_timer := combo_window\<rparr>))))"

fun collide_bricks :: "env \<Rightarrow> Brick list \<Rightarrow> game \<Rightarrow> Brick list \<times> game" where
  "collide_bricks e [] s = ([], s)"
| "collide_bricks e (b # bs) s =
     (if \<not> brick_alive b
      then (case collide_bricks e bs s of (bs', s') \<Rightarrow> (b # bs', s'))
      else (case collide_ball_with_rect (brick_rect b) s of
              None \<Rightarrow> (case collide_bricks e bs s of (bs', s') \<Rightarrow> (b # bs', s'))
            | Some (n, hit_pos) \<Rightarrow>
                (case hit_brick e b n s of (b', s1) \<Rightarrow>
                   if \<not> pierce_mode s1 then (b' # bs, s1)
                   else (case collide_bricks e bs s1 of (bs', s2) \<Rightarrow> (b' # bs', s2)))))"

definition collide_carriage :: "game \<Rightarrow> game" where
  "collide_carriage s =
     (case collide_ball_with_rect (carriage_world s) s of
        None \<Rightarrow> s
      | Some (n, hit_pos) \<Rightarrow>
          bounce_from_carriage (carriage_world s) hit_pos
            (set_ball_y (vy (rpos (carriage_world s)) - ball_radius s - 1 / 2) s))"

definition handle_collisions :: "env \<Rightarrow> game \<Rightarrow> game" where
  "handle_collisions e s =
     (let s1 = collide_carriage s
      in case collide_bricks e (bricks s1) s1 of (bs, s2) \<Rightarrow> s2\<lparr>bricks := bs\<rparr>)"

section \<open>Bonus lifecycle\<close>

definition apply_bonus :: "env \<Rightarrow> Bonus \<Rightarrow> game \<Rightarrow> game" where
  "apply_bonus e b s =
     (case bonus_type b of
        SpeedUp \<Rightarrow>
          s\<lparr>ball_speed_target := min (ball_speed_target s * (115 / 100) + 10) ball_max_speed\<rparr>
      | EnlargePaddle \<Rightarrow>
          (let new_width = max (vx (rsize (carriage_world s)) * (13 / 10))
                               (vx (rsize (carriage_world s)));
               s1 = set_carriage_w (clampf new_width (carriage_width_min e)
                                      (vx (world_size s) * (95 / 100))) s
           in clamp_carriage (s1\<lparr>cheat_enlarge_paddle := False\<rparr>))
      | ExtraLife \<Rightarrow> s\<lparr>lives := lives s + 1\<rparr>
      | Pierce \<Rightarrow> s\<lparr>pierce_mode := True, pierce_timer := pierce_duration\<rparr>
      | SlowMo \<Rightarrow> s\<lparr>slowmo_mode := True, slowmo_timer := 5,
                     ball_speed_target := ball_speed_target s * (4 / 10)\<rparr>
      | Points \<Rightarrow> s\<lparr>score := score s + bonus_points b * score_mult_value s\<rparr>
      | Magnet \<Rightarrow> s\<lparr>magnet_active := True, magnet_timer := magnet_duration\<rparr>
      | ScoreMult \<Rightarrow>
          (case c_rand_next e s of (r, s1) \<Rightarrow>
             s1\<lparr>score_mult_active := True, score_mult_timer := score_mult_duration,
                score_mult_value := (if int r mod 2 \<noteq> 0 then 2 else 3)\<rparr>)
      | NukeRow \<Rightarrow> s)"

text \<open>The body of the loop of \<^verbatim>\<open>integrate_bonuses\<close> for one bonus.\<close>

definition step_bonus :: "env \<Rightarrow> real \<Rightarrow> Bonus \<Rightarrow> game \<Rightarrow> Bonus \<times> game" where
  "step_bonus e dt b0 s =
     (if \<not> bonus_alive b0 then (b0, s)
      else
        let b1 = (if magnet_active s
                  then (let center = rect_center (carriage_world s);
                            dir = vsub center (rect_center (bonus_rect b0));
                            dist = Length dir
                        in if dist > 1 / 10000
                           then b0\<lparr>bonus_vel := vadd (bonus_vel b0)
                                   (vscale (vscale (Normalized dir)
                                      (magnet_strength / (1 / 2 + dist * (2 / 100)))) dt)\<rparr>
                           else b0)
                  else b0\<lparr>bonus_vel := (bonus_vel b0)\<lparr>vy := 80\<rparr>\<rparr>);
            b2 = b1\<lparr>bonus_rect := (bonus_rect b1)
                      \<lparr>rpos := vadd (rpos (bonus_rect b1)) (vscale (bonus_vel b1) dt)\<rparr>\<rparr>;
            r = bonus_rect b2;
            c = carriage_world s;
            (b3, s1) =
              (if vx (rpos r) + vx (rsize r) \<ge> vx (rpos c) \<and>
                  vx (rpos r) \<le> vx (rpos c) + vx (rsize c) \<and>
                  vy (rpos r) + vy (rsize r) \<ge> vy (rpos c) \<and>
                  vy (rpos r) \<le> vy (rpos c) + vy (rsize c)
               then (b2\<lparr>bonus_alive := False\<rparr>, apply_bonus e b2 s)
               else (b2, s))
        in if vy (rpos (bonus_rect b3)) > vy (world_size s1) + 20
           then (b3\<lparr>bonus_alive := False\<rparr>, s1)
           else (b3, s1))"

fun step_bonuses :: "env \<Rightarrow> real \<Rightarrow> Bonus list \<Rightarrow> game \<Rightarrow> Bonus list \<times> game" where
  "step_bonuses e dt [] s = ([], s)"
| "step_bonuses e dt (b # bs) s =
     (case step_bonus e dt b s of (b', s1) \<Rightarrow>
        (case step_bonuses e dt bs s1 of (bs', s2) \<Rightarrow> (b' # bs', s2)))"

definition integrate_bonuses :: "env \<Rightarrow> real \<Rightarrow> game \<Rightarrow> game" where
  "integrate_bonuses e dt s =
     (case step_bonuses e dt (bonuses s) s of
        (bs, s') \<Rightarrow> s'\<lparr>bonuses := filter bonus_alive bs\<rparr>)"

section \<open>Frame update\<close>

text \<open>
  The slow-motion block at the head of \<^verbatim>\<open>update\<close>: the scaled time step for the frame and
  the state with the slow-motion timer advanced.
\<close>

definition update_slowmo :: "real \<Rightarrow> game \<Rightarrow> real \<times> game" where
  "update_slowmo elapsed s =
     (if slowmo_mode s
      then (elapsed * slowmo_factor,
            if slowmo_timer s - elapsed \<le> 0
            then s\<lparr>slowmo_timer := 0, slowmo_mode := False\<rparr>
            else s\<lparr>slowmo_timer := slowmo_timer s - elapsed\<rparr>)
      else (elapsed, s))"

definition any_alive :: "game \<Rightarrow> bool" where
  "any_alive s = list_ex brick_alive (bricks s)"

definition update :: "env \<Rightarrow> keys \<Rightarrow> real \<Rightarrow> game \<Rightarrow> game" where
  "update e io elapsed s0 =
     (case update_slowmo elapsed s0 of (dt, s) \<Rightarrow>
        if state s \<noteq> Playing
        then (if key_R io then reset e (settings s) s else s)
        else
          let s1 = grant_money_from_score s;
              s2 = handle_cheats_and_controls e io dt s1
          in if paused s2 then s2
             else
               let s3 = integrate_ball e dt s2;
                   s4 = integrate_bonuses e dt s3;
                   s5 = handle_collisions e s4
               in if \<not> any_alive s5 then s5\<lparr>state := Win\<rparr> else s5)"

section \<open>Predicates used in the statements\<close>

text \<open>The paddle rectangle lies inside the world horizontally.\<close>

definition in_world :: "game \<Rightarrow> bool" where
  "in_world s \<longleftrightarrow>
     0 \<le> vx (rpos (carriage_world s)) \<and>
     vx (rpos (carriage_world s)) \<le> vx (world_size s) - vx (rsize (carriage_world s))"

text \<open>The paddle position is a fixed point of \<^verbatim>\<open>clamp_carriage\<close>.\<close>

definition clamped :: "game \<Rightarrow> bool" where
  "clamped s \<longleftrightarrow>
     vx (rpos (carriage_world s)) =
       clampf (vx (rpos (carriage_world s))) 0 (vx (world_size s) - vx (rsize (carriage_world s)))"

text \<open>
  The states of a run: a new object, then any sequence of calls of \<^verbatim>\<open>reset\<close> and \<^verbatim>\<open>update\<close>
  with any settings, keys and time steps.
\<close>

inductive reachable :: "env \<Rightarrow> game \<Rightarrow> bool" for e :: env where
  start: "reachable e (fresh dflt)"
| after_reset: "reachable e s \<Longrightarrow> reachable e (reset e cfg s)"
| after_update: "reachable e s \<Longrightarrow> reachable e (update e io el s)"

named_theorems frame

section \<open>Concrete configurations for the example evaluations\<close>

definition demo_settings :: ArkanoidSettings where
  "demo_settings =
     \<lparr>s_world_size = \<lparr>vx = 800, vy = 600\<rparr>,
      s_ball_radius = 10,
      s_ball_speed = 150,
      s_carriage_width = 100,
      s_bricks_columns_count = 10,
      s_bricks_rows_count = 4,
      s_bricks_columns_padding = 5,
      s_bricks_rows_padding = 5\<rparr>"

definition demo_env :: env where
  "demo_env =
     \<lparr>ball_speed_min = 1,
      ball_speed_max = 1000,
      carriage_width_min = 50,
      bricks_columns_min = 1,
      bricks_columns_max = 30,
      bricks_rows_min = 1,
      bricks_rows_max = 10,
      bricks_columns_padding_min = 0,
      bricks_columns_padding_max = 20,
      bricks_rows_padding_min = 0,
      bricks_rows_padding_max = 20,
      c_rand = (\<lambda>k. k),
      level_unif = (\<lambda>k. 1 / 2),
      level_hp = (\<lambda>k. 50),
      mt_choice = (\<lambda>seed. int (seed mod 7))\<rparr>"

definition demo_brick :: Brick where
  "demo_brick =
     \<lparr>brick_rect = make_rect_xywh 380 40 40 20,
      brick_alive = True,
      brick_score = 16,
      brick_bonus = True,
      hit_points = 1\<rparr>"

definition no_keys :: keys where
  "no_keys =
     \<lparr>key_A = False, key_D = False, key_R = False, key_1 = False, key_2 = False,
      key_3 = False, key_C = False, key_X = False, key_T = False, key_Q = False,
      key_Y = False, key_E = False, key_N = False\<rparr>"

definition keyD :: keys where
  "keyD = no_keys\<lparr>key_D := True\<rparr>"

definition keyN :: keys where
  "keyN = no_keys\<lparr>key_N := True\<rparr>"

text \<open>
  A state in the middle of a game: one brick left, the paddle near the right wall, the
  ball in the middle of the world moving up and to the right at speed 150.
\<close>

definition demo_game :: game where
  "demo_game =
     (fresh demo_settings)
       \<lparr>bricks := [demo_brick],
        bricks_cols := 1,
        bricks_rows := 1,
        brick_size := \<lparr>vx = 40, vy = 20\<rparr>,
        bricks_origin := \<lparr>vx = 380, vy = 40\<rparr>,
        carriage_world := make_rect_xywh 690 560 100 18,
        ball_pos := \<lparr>vx = 400, vy = 300\<rparr>,
        ball_vel := \<lparr>vx = 90, vy = - 120\<rparr>\<rparr>"

text \<open>The same frame after the controls (key D held for a tenth of a second) and after the ball step.\<close>

definition demo_after_controls :: game where
  "demo_after_controls =
     demo_game\<lparr>carriage_world := \<lparr>rpos = \<lparr>vx = 700, vy = 560\<rparr>, rsize = \<lparr>vx = 100, vy = 18\<rparr>\<rparr>\<rparr>"

definition demo_after_ball :: game where
  "demo_after_ball = demo_after_controls\<lparr>ball_pos := \<lparr>vx = 409, vy = 288\<rparr>\<rparr>"

text \<open>
  The last life and the last brick: the ball is level with the brick and moves straight
  down.
\<close>

definition last_brick_game :: game where
  "last_brick_game =
     demo_game\<lparr>lives := 1, ball_pos := \<lparr>vx = 400, vy = 50\<rparr>, ball_vel := \<lparr>vx = 0, vy = 150\<rparr>\<rparr>"

definition last_after_controls :: game where
  "last_after_controls =
     last_brick_game\<lparr>bricks := [demo_brick\<lparr>brick_alive := False\<rparr>],
                     score := 16, destroyed_bricks_count := 1\<rparr>"

definition last_after_ball :: game where
  "last_after_ball =
     last_after_controls\<lparr>ball_pos := \<lparr>vx = 400, vy = 650\<rparr>, lives := 0, state := Lose\<rparr>"

text \<open>The ball just below the top wall, moving straight up.\<close>

definition top_game :: game where
  "top_game = demo_game\<lparr>ball_pos := \<lparr>vx = 400, vy = 15\<rparr>, ball_vel := \<lparr>vx = 0, vy = - 150\<rparr>\<rparr>"

definition top_after_ball :: game where
  "top_after_ball =
     top_game\<lparr>ball_pos := \<lparr>vx = 400, vy = 20\<rparr>, ball_vel := \<lparr>vx = - (45 / 2), vy = 150\<rparr>,
              rand_calls := 1\<rparr>"



text \<open>A slow-motion bonus, and the state after the paddle has caught it.\<close>

definition slow_bonus :: Bonus where
  "slow_bonus =
     \<lparr>bonus_rect = make_rect_xywh 700 550 28 14,
      bonus_type = SlowMo,
      bonus_vel = \<lparr>vx = 0, vy = 80\<rparr>,
      bonus_alive = True,
      bonus_points = 0\<rparr>"

definition slowed_game :: game where
  "slowed_game = demo_game\<lparr>slowmo_mode := True, slowmo_timer := 5, ball_speed_target := 60\<rparr>"

definition slowed_after :: game where
  "slowed_after =
     demo_game\<lparr>ball_speed_target := 60, ball_speed_cur := 60,
               ball_pos := \<lparr>vx = 481, vy = 192\<rparr>, ball_vel := \<lparr>vx = 36, vy = - 48\<rparr>\<rparr>"

section \<open>Auxiliary facts\<close>

subsection \<open>Arithmetic and strings\<close>

lemma to_string_10: "to_string 10 = ''10''"
  by (simp add: to_string_def dec_digits.simps digit_char_def)

lemma tdiv_nonneg: "0 \<le> a \<Longrightarrow> 0 < b \<Longrightarrow> tdiv a b = a div b"
  by (simp add: tdiv_def)

lemma sqrt_22500: "sqrt 22500 = 150"
  by (rule real_sqrt_unique) simp_all

subsection \<open>Fields that the steps of a frame leave alone\<close>

lemma update_slowmo_frame [frame]:
  "carriage_world (snd (update_slowmo el s)) = carriage_world s"
  "world_size (snd (update_slowmo el s)) = world_size s"
  "balance (snd (update_slowmo el s)) = balance s"
  "total_money (snd (update_slowmo el s)) = total_money s"
  "money_from_score_accumulator (snd (update_slowmo el s)) = money_from_score_accumulator s"
  "bricks (snd (update_slowmo el s)) = bricks s"
  by (simp_all add: update_slowmo_def)

lemma update_slowmo_state [frame]: "state (snd (update_slowmo el s)) = state s"
  by (simp add: update_slowmo_def)

lemma add_money_frame [frame]:
  "carriage_world (add_money a s) = carriage_world s"
  "world_size (add_money a s) = world_size s"
  "money_from_score_accumulator (add_money a s) = money_from_score_accumulator s"
  "bricks (add_money a s) = bricks s"
  by (simp_all add: add_money_def)

lemma grant_money_frame [frame]:
  "carriage_world (grant_money_from_score s) = carriage_world s"
  "world_size (grant_money_from_score s) = world_size s"
  "bricks (grant_money_from_score s) = bricks s"
  by (simp_all add: grant_money_from_score_def Let_def frame)

lemma set_carriage_frame [frame]:
  "world_size (set_carriage_x v s) = world_size s"
  "balance (set_carriage_x v s) = balance s"
  "total_money (set_carriage_x v s) = total_money s"
  "money_from_score_accumulator (set_carriage_x v s) = money_from_score_accumulator s"
  "bricks (set_carriage_x v s) = bricks s"
  "world_size (set_carriage_w v s) = world_size s"
  "balance (set_carriage_w v s) = balance s"
  "total_money (set_carriage_w v s) = total_money s"
  "money_from_score_accumulator (set_carriage_w v s) = money_from_score_accumulator s"
  "bricks (set_carriage_w v s) = bricks s"
  "world_size (set_carriage_h v s) = world_size s"
  "balance (set_carriage_h v s) = balance s"
  "total_money (set_carriage_h v s) = total_money s"
  "money_from_score_accumulator (set_carriage_h v s) = money_from_score_accumulator s"
  "bricks (set_carriage_h v s) = bricks s"
  by (simp_all add: set_carriage_x_def set_carriage_w_def set_carriage_h_def)

lemma clamp_carriage_frame [frame]:
  "world_size (clamp_carriage s) = world_size s"
  "balance (clamp_carriage s) = balance s"
  "total_money (clamp_carriage s) = total_money s"
  "money_from_score_accumulator (clamp_carriage s) = money_from_score_accumulator s"
  "bricks (clamp_carriage s) = bricks s"
  by (simp_all add: clamp_carriage_def frame)

lemma controls_paddle_frame [frame]:
  "world_size (controls_paddle e io dt s) = world_size s"
  "balance (controls_paddle e io dt s) = balance s"
  "total_money (controls_paddle e io dt s) = total_money s"
  "money_from_score_accumulator (controls_paddle e io dt s) = money_from_score_accumulator s"
  "bricks (controls_paddle e io dt s) = bricks s"
  by (simp_all add: controls_paddle_def Let_def frame)

lemma try_purchase_frame [frame]:
  "carriage_world (snd (try_purchase c s)) = carriage_world s"
  "world_size (snd (try_purchase c s)) = world_size s"
  "total_money (snd (try_purchase c s)) = total_money s"
  "money_from_score_accumulator (snd (try_purchase c s)) = money_from_score_accumulator s"
  "bricks (snd (try_purchase c s)) = bricks s"
  by (simp_all add: try_purchase_def)

lemma try_purchase_balance: "balance (snd (try_purchase c s)) \<le> balance s"
  by (simp add: try_purchase_def)

lemma buy_frame:
  assumes "\<And>u. carriage_world (f u) = carriage_world u"
    and "\<And>u. world_size (f u) = world_size u"
    and "\<And>u. total_money (f u) = total_money u"
    and "\<And>u. money_from_score_accumulator (f u) = money_from_score_accumulator u"
    and "\<And>u. bricks (f u) = bricks u"
    and "\<And>u. balance (f u) = balance u"
  shows "carriage_world (buy k c f s) = carriage_world s"
    and "world_size (buy k c f s) = world_size s"
    and "total_money (buy k c f s) = total_money s"
    and "money_from_score_accumulator (buy k c f s) = money_from_score_accumulator s"
    and "bricks (buy k c f s) = bricks s"
    and "balance (buy k c f s) \<le> balance s"
  using assms try_purchase_frame [of c s] try_purchase_balance [of c s]
  by (auto simp add: buy_def split: prod.splits)

lemma hotkey_plain_frame [frame]:
  "carriage_world (hotkey_1 io s) = carriage_world s"
  "world_size (hotkey_1 io s) = world_size s"
  "balance (hotkey_1 io s) = balance s"
  "total_money (hotkey_1 io s) = total_money s"
  "money_from_score_accumulator (hotkey_1 io s) = money_from_score_accumulator s"
  "bricks (hotkey_1 io s) = bricks s"
  "carriage_world (hotkey_2 io s) = carriage_world s"
  "world_size (hotkey_2 io s) = world_size s"
  "balance (hotkey_2 io s) = balance s"
  "total_money (hotkey_2 io s) = total_money s"
  "money_from_score_accumulator (hotkey_2 io s) = money_from_score_accumulator s"
  "bricks (hotkey_2 io s) = bricks s"
  "carriage_world (hotkey_3 io s) = carriage_world s"
  "world_size (hotkey_3 io s) = world_size s"
  "balance (hotkey_3 io s) = balance s"
  "total_money (hotkey_3 io s) = total_money s"
  "money_from_score_accumulator (hotkey_3 io s) = money_from_score_accumulator s"
  "bricks (hotkey_3 io s) = bricks s"
  "carriage_world (hotkey_C io s) = carriage_world s"
  "world_size (hotkey_C io s) = world_size s"
  "balance (hotkey_C io s) = balance s"
  "total_money (hotkey_C io s) = total_money s"
  "money_from_score_accumulator (hotkey_C io s) = money_from_score_accumulator s"
  "bricks (hotkey_C io s) = bricks s"
  by (simp_all add: hotkey_1_def hotkey_2_def hotkey_3_def hotkey_C_def)

lemma hotkey_buy_frame [frame]:
  "carriage_world (hotkey_X io s) = carriage_world s"
  "world_size (hotkey_X io s) = world_size s"
  "total_money (hotkey_X io s) = total_money s"
  "money_from_score_accumulator (hotkey_X io s) = money_from_score_accumulator s"
  "bricks (hotkey_X io s) = bricks s"
  "carriage_world (hotkey_T io s) = carriage_world s"
  "world_size (hotkey_T io s) = world_size s"
  "total_money (hotkey_T io s) = total_money s"
  "money_from_score_accumulator (hotkey_T io s) = money_from_score_accumulator s"
  "bricks (hotkey_T io s) = bricks s"
  "carriage_world (hotkey_Q io s) = carriage_world s"
  "world_size (hotkey_Q io s) = world_size s"
  "total_money (hotkey_Q io s) = total_money s"
  "money_from_score_accumulator (hotkey_Q io s) = money_from_score_accumulator s"
  "bricks (hotkey_Q io s) = bricks s"
  "carriage_world (hotkey_Y io s) = carriage_world s"
  "world_size (hotkey_Y io s) = world_size s"
  "total_money (hotkey_Y io s) = total_money s"
  "money_from_score_accumulator (hotkey_Y io s) = money_from_score_accumulator s"
  "bricks (hotkey_Y io s) = bricks s"
  "carriage_world (hotkey_E io s) = carriage_world s"
  "world_size (hotkey_E io s) = world_size s"
  "total_money (hotkey_E io s) = total_money s"
  "money_from_score_accumulator (hotkey_E io s) = money_from_score_accumulator s"
  "bricks (hotkey_E io s) = bricks s"
  by (simp_all add: hotkey_X_def hotkey_T_def hotkey_Q_def hotkey_Y_def hotkey_E_def buy_frame)

lemma hotkey_buy_balance:
  "balance (hotkey_X io s) \<le> balance s"
  "balance (hotkey_T io s) \<le> balance s"
  "balance (hotkey_Q io s) \<le> balance s"
  "balance (hotkey_Y io s) \<le> balance s"
  "balance (hotkey_E io s) \<le> balance s"
  by (simp_all add: hotkey_X_def hotkey_T_def hotkey_Q_def hotkey_Y_def hotkey_E_def buy_frame)

lemma controls_hotkeys_frame [frame]:
  "carriage_world (controls_hotkeys io s) = carriage_world s"
  "world_size (controls_hotkeys io s) = world_size s"
  "total_money (controls_hotkeys io s) = total_money s"
  "money_from_score_accumulator (controls_hotkeys io s) = money_from_score_accumulator s"
  "bricks (controls_hotkeys io s) = bricks s"
  by (simp_all add: controls_hotkeys_def frame)

lemma controls_hotkeys_balance: "balance (controls_hotkeys io s) \<le> balance s"
proof -
  let ?a = "hotkey_C io (hotkey_3 io (hotkey_2 io (hotkey_1 io s)))"
  have a: "balance ?a = balance s" by (simp add: frame)
  have "balance (hotkey_E io (hotkey_Y io (hotkey_Q io (hotkey_T io (hotkey_X io ?a))))) \<le>
          balance (hotkey_Y io (hotkey_Q io (hotkey_T io (hotkey_X io ?a))))"
    by (rule hotkey_buy_balance)
  also have "\<dots> \<le> balance (hotkey_Q io (hotkey_T io (hotkey_X io ?a)))"
    by (rule hotkey_buy_balance)
  also have "\<dots> \<le> balance (hotkey_T io (hotkey_X io ?a))"
    by (rule hotkey_buy_balance)
  also have "\<dots> \<le> balance (hotkey_X io ?a)"
    by (rule hotkey_buy_balance)
  also have "\<dots> \<le> balance ?a"
    by (rule hotkey_buy_balance)
  finally show ?thesis using a by (simp add: controls_hotkeys_def)
qed

lemma count_destroyed_frame [frame]:
  "carriage_world (count_destroyed s) = carriage_world s"
  "world_size (count_destroyed s) = world_size s"
  "balance (count_destroyed s) = balance s"
  "total_money (count_destroyed s) = total_money s"
  "money_from_score_accumulator (count_destroyed s) = money_from_score_accumulator s"
  "bricks (count_destroyed s) = bricks s"
  by (simp_all add: count_destroyed_def Let_def)

lemma nuke_brick_frame [frame]:
  "carriage_world (snd (nuke_brick b s)) = carriage_world s"
  "world_size (snd (nuke_brick b s)) = world_size s"
  "balance (snd (nuke_brick b s)) = balance s"
  "total_money (snd (nuke_brick b s)) = total_money s"
  "money_from_score_accumulator (snd (nuke_brick b s)) = money_from_score_accumulator s"
  "bricks (snd (nuke_brick b s)) = bricks s"
  by (simp_all add: nuke_brick_def frame)

lemma nuke_brick_score: "brick_score (fst (nuke_brick b s)) = brick_score b"
  by (simp add: nuke_brick_def)

lemma nuke_row_frame_all:
  "carriage_world (snd (nuke_row bs s)) = carriage_world s \<and>
   world_size (snd (nuke_row bs s)) = world_size s \<and>
   balance (snd (nuke_row bs s)) = balance s \<and>
   total_money (snd (nuke_row bs s)) = total_money s \<and>
   money_from_score_accumulator (snd (nuke_row bs s)) = money_from_score_accumulator s \<and>
   map brick_score (fst (nuke_row bs s)) = map brick_score bs"
proof (induction bs arbitrary: s)
  case Nil
  show ?case by simp
next
  case (Cons b bs)
  obtain b' s1 where n: "nuke_brick b s = (b', s1)" by (cases "nuke_brick b s")
  obtain bs' s2 where r: "nuke_row bs s1 = (bs', s2)" by (cases "nuke_row bs s1")
  from Cons.IH [of s1] r nuke_brick_frame [of b s] nuke_brick_score [of b s] n
  show ?case by simp
qed

lemma controls_nuke_frame [frame]:
  "carriage_world (controls_nuke io s) = carriage_world s"
  "world_size (controls_nuke io s) = world_size s"
  "balance (controls_nuke io s) = balance s"
  "total_money (controls_nuke io s) = total_money s"
  "money_from_score_accumulator (controls_nuke io s) = money_from_score_accumulator s"
  using nuke_row_frame_all [of "bricks s" s]
  by (auto simp add: controls_nuke_def split: prod.splits)

lemma controls_nuke_scores:
  "map brick_score (bricks (controls_nuke io s)) = map brick_score (bricks s)"
  using nuke_row_frame_all [of "bricks s" s]
  by (auto simp add: controls_nuke_def split: prod.splits)

lemma ticks_frame [frame]:
  "carriage_world (cheat_one_shots s) = carriage_world s"
  "world_size (cheat_one_shots s) = world_size s"
  "balance (cheat_one_shots s) = balance s"
  "total_money (cheat_one_shots s) = total_money s"
  "money_from_score_accumulator (cheat_one_shots s) = money_from_score_accumulator s"
  "bricks (cheat_one_shots s) = bricks s"
  "carriage_world (tick_magnet dt s) = carriage_world s"
  "world_size (tick_magnet dt s) = world_size s"
  "balance (tick_magnet dt s) = balance s"
  "total_money (tick_magnet dt s) = total_money s"
  "money_from_score_accumulator (tick_magnet dt s) = money_from_score_accumulator s"
  "bricks (tick_magnet dt s) = bricks s"
  "carriage_world (tick_score_mult dt s) = carriage_world s"
  "world_size (tick_score_mult dt s) = world_size s"
  "balance (tick_score_mult dt s) = balance s"
  "total_money (tick_score_mult dt s) = total_money s"
  "money_from_score_accumulator (tick_score_mult dt s) = money_from_score_accumulator s"
  "bricks (tick_score_mult dt s) = bricks s"
  "carriage_world (smooth_speed dt s) = carriage_world s"
  "world_size (smooth_speed dt s) = world_size s"
  "balance (smooth_speed dt s) = balance s"
  "total_money (smooth_speed dt s) = total_money s"
  "money_from_score_accumulator (smooth_speed dt s) = money_from_score_accumulator s"
  "bricks (smooth_speed dt s) = bricks s"
  "carriage_world (tick_pierce dt s) = carriage_world s"
  "world_size (tick_pierce dt s) = world_size s"
  "balance (tick_pierce dt s) = balance s"
  "total_money (tick_pierce dt s) = total_money s"
  "money_from_score_accumulator (tick_pierce dt s) = money_from_score_accumulator s"
  "bricks (tick_pierce dt s) = bricks s"
  "carriage_world (tick_combo dt s) = carriage_world s"
  "world_size (tick_combo dt s) = world_size s"
  "balance (tick_combo dt s) = balance s"
  "total_money (tick_combo dt s) = total_money s"
  "money_from_score_accumulator (tick_combo dt s) = money_from_score_accumulator s"
  "bricks (tick_combo dt s) = bricks s"
  "carriage_world (tick_shop_message dt s) = carriage_world s"
  "world_size (tick_shop_message dt s) = world_size s"
  "balance (tick_shop_message dt s) = balance s"
  "total_money (tick_shop_message dt s) = total_money s"
  "money_from_score_accumulator (tick_shop_message dt s) = money_from_score_accumulator s"
  "bricks (tick_shop_message dt s) = bricks s"
  by (simp_all add: tick_shop_message_def tick_combo_def tick_pierce_def
      smooth_speed_def tick_score_mult_def tick_magnet_def cheat_one_shots_def Let_def)

lemma controls_timers_frame [frame]:
  "carriage_world (controls_timers dt s) = carriage_world s"
  "world_size (controls_timers dt s) = world_size s"
  "balance (controls_timers dt s) = balance s"
  "total_money (controls_timers dt s) = total_money s"
  "money_from_score_accumulator (controls_timers dt s) = money_from_score_accumulator s"
  "bricks (controls_timers dt s) = bricks s"
  by (simp_all add: controls_timers_def frame)

lemma handle_cheats_frame [frame]:
  "world_size (handle_cheats_and_controls e io dt s) = world_size s"
  "total_money (handle_cheats_and_controls e io dt s) = total_money s"
  "money_from_score_accumulator (handle_cheats_and_controls e io dt s) = money_from_score_accumulator s"
  by (simp_all add: handle_cheats_and_controls_def frame)

lemma handle_cheats_balance: "balance (handle_cheats_and_controls e io dt s) \<le> balance s"
  using controls_hotkeys_balance [of io "controls_paddle e io dt s"]
  by (simp add: handle_cheats_and_controls_def frame)

lemma handle_cheats_scores:
  "map brick_score (bricks (handle_cheats_and_controls e io dt s)) = map brick_score (bricks s)"
  by (simp add: handle_cheats_and_controls_def frame controls_nuke_scores)

lemma reflect_ball_frame [frame]:
  "carriage_world (reflect_ball e n s) = carriage_world s"
  "world_size (reflect_ball e n s) = world_size s"
  "balance (reflect_ball e n s) = balance s"
  "total_money (reflect_ball e n s) = total_money s"
  "money_from_score_accumulator (reflect_ball e n s) = money_from_score_accumulator s"
  "bricks (reflect_ball e n s) = bricks s"
  by (simp_all add: reflect_ball_def Let_def c_rand_next_def split: prod.splits)

lemma set_ball_frame [frame]:
  "carriage_world (set_ball_x v s) = carriage_world s"
  "world_size (set_ball_x v s) = world_size s"
  "balance (set_ball_x v s) = balance s"
  "total_money (set_ball_x v s) = total_money s"
  "money_from_score_accumulator (set_ball_x v s) = money_from_score_accumulator s"
  "bricks (set_ball_x v s) = bricks s"
  "carriage_world (set_ball_y v s) = carriage_world s"
  "world_size (set_ball_y v s) = world_size s"
  "balance (set_ball_y v s) = balance s"
  "total_money (set_ball_y v s) = total_money s"
  "money_from_score_accumulator (set_ball_y v s) = money_from_score_accumulator s"
  "bricks (set_ball_y v s) = bricks s"
  by (simp_all add: set_ball_x_def set_ball_y_def)

lemma ball_advance_frame [frame]:
  "carriage_world (ball_advance dt s) = carriage_world s"
  "world_size (ball_advance dt s) = world_size s"
  "balance (ball_advance dt s) = balance s"
  "total_money (ball_advance dt s) = total_money s"
  "money_from_score_accumulator (ball_advance dt s) = money_from_score_accumulator s"
  "bricks (ball_advance dt s) = bricks s"
  by (simp_all add: ball_advance_def Let_def)

lemma ball_walls_frame [frame]:
  "carriage_world (ball_walls e s) = carriage_world s"
  "world_size (ball_walls e s) = world_size s"
  "balance (ball_walls e s) = balance s"
  "total_money (ball_walls e s) = total_money s"
  "money_from_score_accumulator (ball_walls e s) = money_from_score_accumulator s"
  "bricks (ball_walls e s) = bricks s"
  by (simp_all add: ball_walls_def Let_def frame)

lemma ball_bottom_frame [frame]:
  "carriage_world (ball_bottom s) = carriage_world s"
  "world_size (ball_bottom s) = world_size s"
  "balance (ball_bottom s) = balance s"
  "total_money (ball_bottom s) = total_money s"
  "money_from_score_accumulator (ball_bottom s) = money_from_score_accumulator s"
  "bricks (ball_bottom s) = bricks s"
  by (simp_all add: ball_bottom_def Let_def)

lemma integrate_ball_frame [frame]:
  "carriage_world (integrate_ball e dt s) = carriage_world s"
  "world_size (integrate_ball e dt s) = world_size s"
  "balance (integrate_ball e dt s) = balance s"
  "total_money (integrate_ball e dt s) = total_money s"
  "money_from_score_accumulator (integrate_ball e dt s) = money_from_score_accumulator s"
  "bricks (integrate_ball e dt s) = bricks s"
  by (simp_all add: integrate_ball_def frame)

lemma apply_bonus_frame [frame]:
  "world_size (apply_bonus e b s) = world_size s"
  "balance (apply_bonus e b s) = balance s"
  "total_money (apply_bonus e b s) = total_money s"
  "money_from_score_accumulator (apply_bonus e b s) = money_from_score_accumulator s"
  "bricks (apply_bonus e b s) = bricks s"
  by (cases "bonus_type b"; simp add: apply_bonus_def Let_def c_rand_next_def frame)+

lemma step_bonus_frame [frame]:
  "world_size (snd (step_bonus e dt b s)) = world_size s"
  "balance (snd (step_bonus e dt b s)) = balance s"
  "total_money (snd (step_bonus e dt b s)) = total_money s"
  "money_from_score_accumulator (snd (step_bonus e dt b s)) = money_from_score_accumulator s"
  "bricks (snd (step_bonus e dt b s)) = bricks s"
  by (simp_all add: step_bonus_def Let_def frame split: prod.splits)

lemma step_bonuses_frame_all:
  "world_size (snd (step_bonuses e dt bs s)) = world_size s \<and>
   balance (snd (step_bonuses e dt bs s)) = balance s \<and>
   total_money (snd (step_bonuses e dt bs s)) = total_money s \<and>
   money_from_score_accumulator (snd (step_bonuses e dt bs s)) = money_from_score_accumulator s \<and>
   bricks (snd (step_bonuses e dt bs s)) = bricks s"
proof (induction bs arbitrary: s)
  case Nil
  show ?case by simp
next
  case (Cons b bs)
  obtain b' s1 where n: "step_bonus e dt b s = (b', s1)" by (cases "step_bonus e dt b s")
  obtain bs' s2 where r: "step_bonuses e dt bs s1 = (bs', s2)"
    by (cases "step_bonuses e dt bs s1")
  from Cons.IH [of s1] r step_bonus_frame [of e dt b s] n show ?case by simp
qed

lemma integrate_bonuses_frame [frame]:
  "world_size (integrate_bonuses e dt s) = world_size s"
  "balance (integrate_bonuses e dt s) = balance s"
  "total_money (integrate_bonuses e dt s) = total_money s"
  "money_from_score_accumulator (integrate_bonuses e dt s) = money_from_score_accumulator s"
  "bricks (integrate_bonuses e dt s) = bricks s"
  using step_bonuses_frame_all [of e dt "bonuses s" s]
  by (auto simp add: integrate_bonuses_def split: prod.splits)

lemma bounce_frame [frame]:
  "carriage_world (bounce_from_carriage r h s) = carriage_world s"
  "world_size (bounce_from_carriage r h s) = world_size s"
  "balance (bounce_from_carriage r h s) = balance s"
  "total_money (bounce_from_carriage r h s) = total_money s"
  "money_from_score_accumulator (bounce_from_carriage r h s) = money_from_score_accumulator s"
  "bricks (bounce_from_carriage r h s) = bricks s"
  by (simp_all add: bounce_from_carriage_def Let_def)

lemma collide_carriage_frame [frame]:
  "carriage_world (collide_carriage s) = carriage_world s"
  "world_size (collide_carriage s) = world_size s"
  "balance (collide_carriage s) = balance s"
  "total_money (collide_carriage s) = total_money s"
  "money_from_score_accumulator (collide_carriage s) = money_from_score_accumulator s"
  "bricks (collide_carriage s) = bricks s"
  by (simp_all add: collide_carriage_def frame split: option.splits prod.splits)

lemma spawn_bonus_frame [frame]:
  "carriage_world (spawn_bonus_at c t s) = carriage_world s"
  "world_size (spawn_bonus_at c t s) = world_size s"
  "balance (spawn_bonus_at c t s) = balance s"
  "total_money (spawn_bonus_at c t s) = total_money s"
  "money_from_score_accumulator (spawn_bonus_at c t s) = money_from_score_accumulator s"
  "bricks (spawn_bonus_at c t s) = bricks s"
  by (simp_all add: spawn_bonus_at_def Let_def)

lemma drop_bonus_frame [frame]:
  "carriage_world (drop_bonus e b s) = carriage_world s"
  "world_size (drop_bonus e b s) = world_size s"
  "balance (drop_bonus e b s) = balance s"
  "total_money (drop_bonus e b s) = total_money s"
  "money_from_score_accumulator (drop_bonus e b s) = money_from_score_accumulator s"
  "bricks (drop_bonus e b s) = bricks s"
  by (simp_all add: drop_bonus_def Let_def frame split: option.splits)

lemma hit_brick_frame [frame]:
  "carriage_world (snd (hit_brick e b n s)) = carriage_world s"
  "world_size (snd (hit_brick e b n s)) = world_size s"
  "balance (snd (hit_brick e b n s)) = balance s"
  "total_money (snd (hit_brick e b n s)) = total_money s"
  "money_from_score_accumulator (snd (hit_brick e b n s)) = money_from_score_accumulator s"
  "bricks (snd (hit_brick e b n s)) = bricks s"
  by (simp_all add: hit_brick_def Let_def frame)

lemma hit_brick_score: "brick_score (fst (hit_brick e b n s)) = brick_score b"
  by (simp add: hit_brick_def Let_def)

lemma collide_bricks_frame_all:
  "carriage_world (snd (collide_bricks e bs s)) = carriage_world s \<and>
   world_size (snd (collide_bricks e bs s)) = world_size s \<and>
   balance (snd (collide_bricks e bs s)) = balance s \<and>
   total_money (snd (collide_bricks e bs s)) = total_money s \<and>
   money_from_score_accumulator (snd (collide_bricks e bs s)) = money_from_score_accumulator s \<and>
   map brick_score (fst (collide_bricks e bs s)) = map brick_score bs"
proof (induction bs arbitrary: s)
  case Nil
  show ?case by simp
next
  case (Cons b bs)
  show ?case
  proof (cases "brick_alive b \<and> collide_ball_with_rect (brick_rect b) s \<noteq> None")
    case False
    with Cons.IH [of s] show ?thesis
      by (auto split: prod.splits option.splits)
  next
    case True
    then obtain n h where c: "collide_ball_with_rect (brick_rect b) s = Some (n, h)" by auto
    obtain b' s1 where hb: "hit_brick e b n s = (b', s1)" by (cases "hit_brick e b n s")
    from hit_brick_frame [of e b n s] hit_brick_score [of e b n s] hb
    have "carriage_world s1 = carriage_world s" "world_size s1 = world_size s"
      "balance s1 = balance s" "total_money s1 = total_money s"
      "money_from_score_accumulator s1 = money_from_score_accumulator s"
      "brick_score b' = brick_score b"
      by simp_all
    with Cons.IH [of s1] True c hb show ?thesis
      by (auto split: prod.splits)
  qed
qed

lemma handle_collisions_frame [frame]:
  "carriage_world (handle_collisions e s) = carriage_world s"
  "world_size (handle_collisions e s) = world_size s"
  "balance (handle_collisions e s) = balance s"
  "total_money (handle_collisions e s) = total_money s"
  "money_from_score_accumulator (handle_collisions e s) = money_from_score_accumulator s"
  using collide_bricks_frame_all [of e "bricks (collide_carriage s)" "collide_carriage s"]
  by (auto simp add: handle_collisions_def Let_def frame split: prod.splits)

lemma handle_collisions_scores:
  "map brick_score (bricks (handle_collisions e s)) = map brick_score (bricks s)"
  using collide_bricks_frame_all [of e "bricks (collide_carriage s)" "collide_carriage s"]
  by (auto simp add: handle_collisions_def Let_def frame split: prod.splits)

lemma reflect_ball_fields:
  "score (reflect_ball e n s) = score s"
  "combo_mult (reflect_ball e n s) = combo_mult s"
  "score_mult_value (reflect_ball e n s) = score_mult_value s"
  "bonuses (reflect_ball e n s) = bonuses s"
  "brick_size (reflect_ball e n s) = brick_size s"
  "lives (reflect_ball e n s) = lives s"
  "state (reflect_ball e n s) = state s"
  "cheat_invincible (reflect_ball e n s) = cheat_invincible s"
  "ball_radius (reflect_ball e n s) = ball_radius s"
  "ball_speed_target (reflect_ball e n s) = ball_speed_target s"
  "ball_speed_cur (reflect_ball e n s) = ball_speed_cur s"
  "ball_pos (reflect_ball e n s) = ball_pos s"
  "pierce_mode (reflect_ball e n s) = pierce_mode s"
  by (simp_all add: reflect_ball_def Let_def c_rand_next_def split: prod.splits)

lemma set_ball_fields:
  "ball_speed_cur (set_ball_x v s) = ball_speed_cur s"
  "ball_speed_cur (set_ball_y v s) = ball_speed_cur s"
  "ball_vel (set_ball_x v s) = ball_vel s"
  "ball_vel (set_ball_y v s) = ball_vel s"
  by (simp_all add: set_ball_x_def set_ball_y_def)

lemma ball_advance_fields:
  "lives (ball_advance dt s) = lives s"
  "state (ball_advance dt s) = state s"
  "cheat_invincible (ball_advance dt s) = cheat_invincible s"
  "ball_radius (ball_advance dt s) = ball_radius s"
  "ball_speed_target (ball_advance dt s) = ball_speed_target s"
  by (simp_all add: ball_advance_def Let_def)

lemma ball_walls_fields:
  "lives (ball_walls e s) = lives s"
  "state (ball_walls e s) = state s"
  "cheat_invincible (ball_walls e s) = cheat_invincible s"
  "ball_radius (ball_walls e s) = ball_radius s"
  "ball_speed_target (ball_walls e s) = ball_speed_target s"
  "ball_speed_cur (ball_walls e s) = ball_speed_cur s"
  by (simp_all add: ball_walls_def Let_def reflect_ball_fields set_ball_x_def set_ball_y_def)

subsection \<open>The paddle clamp\<close>

lemma clamped_in_world:
  "clamped s \<Longrightarrow> vx (rsize (carriage_world s)) \<le> vx (world_size s) \<Longrightarrow> in_world s"
  by (auto simp add: clamped_def in_world_def clampf_def)

lemma clamped_cong:
  "carriage_world t = carriage_world s \<Longrightarrow> world_size t = world_size s \<Longrightarrow> clamped t = clamped s"
  by (simp add: clamped_def)

lemma clamp_carriage_clamped: "clamped (clamp_carriage s)"
  by (simp add: clamped_def clamp_carriage_def set_carriage_x_def clampf_def)

lemma controls_paddle_clamped: "clamped (controls_paddle e io dt s)"
  by (simp add: controls_paddle_def Let_def clamp_carriage_clamped)

lemma handle_cheats_clamped: "clamped (handle_cheats_and_controls e io dt s)"
  unfolding handle_cheats_and_controls_def
  using controls_paddle_clamped [of e io dt s]
  by (simp add: clamped_def frame)

lemma apply_bonus_clamped:
  assumes "clamped s"
  shows "clamped (apply_bonus e b s)"
proof (cases "bonus_type b = EnlargePaddle")
  case True
  then show ?thesis
    by (simp add: apply_bonus_def Let_def clamp_carriage_clamped)
next
  case False
  then have "carriage_world (apply_bonus e b s) = carriage_world s"
    and "world_size (apply_bonus e b s) = world_size s"
    by (cases "bonus_type b"; simp add: apply_bonus_def c_rand_next_def)+
  from clamped_cong [OF this] assms show ?thesis by simp
qed

lemma step_bonus_clamped: "clamped s \<Longrightarrow> clamped (snd (step_bonus e dt b s))"
  by (simp add: step_bonus_def Let_def apply_bonus_clamped split: prod.splits)

lemma step_bonuses_clamped: "clamped s \<Longrightarrow> clamped (snd (step_bonuses e dt bs s))"
proof (induction bs arbitrary: s)
  case Nil
  then show ?case by simp
next
  case (Cons b bs)
  obtain b' s1 where n: "step_bonus e dt b s = (b', s1)" by (cases "step_bonus e dt b s")
  obtain bs' s2 where r: "step_bonuses e dt bs s1 = (bs', s2)"
    by (cases "step_bonuses e dt bs s1")
  from step_bonus_clamped [of s e dt b] n Cons.prems have "clamped s1" by simp
  with Cons.IH [of s1] r n show ?case by simp
qed

lemma integrate_bonuses_clamped:
  assumes "clamped s"
  shows "clamped (integrate_bonuses e dt s)"
  using step_bonuses_clamped [OF assms, of e dt "bonuses s"]
  by (auto simp add: integrate_bonuses_def clamped_def split: prod.splits)

lemma reset_in_world:
  "vx (rsize (carriage_world (reset e cfg s))) \<le> vx (world_size (reset e cfg s)) \<Longrightarrow>
   in_world (reset e cfg s)"
  by (simp add: reset_def build_level_def Let_def in_world_def make_rect_xywh_def)

lemma update_playing_clamped:
  assumes "state s = Playing"
  shows "clamped (update e io el s)"
proof -
  obtain dt s0 where u: "update_slowmo el s = (dt, s0)" by (cases "update_slowmo el s")
  with update_slowmo_state [of el s] assms have p: "state s0 = Playing" by simp
  let ?s2 = "handle_cheats_and_controls e io dt (grant_money_from_score s0)"
  have c2: "clamped ?s2" by (rule handle_cheats_clamped)
  let ?s3 = "integrate_ball e dt ?s2"
  have c3: "clamped ?s3" using c2 by (simp add: clamped_def frame)
  let ?s4 = "integrate_bonuses e dt ?s3"
  have c4: "clamped ?s4" using c3 by (rule integrate_bonuses_clamped)
  let ?s5 = "handle_collisions e ?s4"
  have c5: "clamped ?s5" using c4 by (simp add: clamped_def frame)
  have c6: "clamped (?s5\<lparr>state := Win\<rparr>)" using c5 by (simp add: clamped_def)
  from u p c2 c5 c6 show ?thesis
    by (simp add: update_def Let_def)
qed

subsection \<open>Invariants of the economy and of the brick scores\<close>

lemma grant_money_economy:
  "total_money s \<le> total_money (grant_money_from_score s)"
  "balance (grant_money_from_score s) - balance s =
     total_money (grant_money_from_score s) - total_money s"
  by (simp_all add: grant_money_from_score_def Let_def add_money_def)

lemma grant_money_mark: "0 \<le> money_from_score_accumulator (grant_money_from_score s)"
  by (simp add: grant_money_from_score_def Let_def add_money_def score_per_dollar_def)

lemma reset_economy:
  "balance (reset e cfg s) = 0"
  "total_money (reset e cfg s) = total_money s"
  "money_from_score_accumulator (reset e cfg s) = 0"
  "score (reset e cfg s) = 0"
  by (simp_all add: reset_def build_level_def Let_def)

lemma update_economy:
  assumes "0 \<le> total_money s" and "balance s \<le> total_money s"
  shows "0 \<le> total_money (update e io el s) \<and>
         balance (update e io el s) \<le> total_money (update e io el s)"
proof -
  obtain dt s0 where u: "update_slowmo el s = (dt, s0)" by (cases "update_slowmo el s")
  with update_slowmo_frame [of el s] assms
  have a0: "0 \<le> total_money s0" "balance s0 \<le> total_money s0" by simp_all
  show ?thesis
  proof (cases "state s0 = Playing")
    case False
    with u a0 show ?thesis
      by (simp add: update_def reset_economy)
  next
    case True
    let ?s1 = "grant_money_from_score s0"
    let ?s2 = "handle_cheats_and_controls e io dt ?s1"
    let ?s5 = "handle_collisions e (integrate_bonuses e dt (integrate_ball e dt ?s2))"
    from grant_money_economy [of s0] a0
    have a1: "0 \<le> total_money ?s1" "balance ?s1 \<le> total_money ?s1" by linarith+
    from handle_cheats_balance [of e io dt ?s1] a1
    have a2: "0 \<le> total_money ?s2" "balance ?s2 \<le> total_money ?s2" by (simp_all add: frame)
    then have a5: "0 \<le> total_money ?s5" "balance ?s5 \<le> total_money ?s5"
      by (simp_all add: frame)
    from u True a2 a5 show ?thesis
      by (simp add: update_def Let_def)
  qed
qed

lemma update_mark:
  assumes "0 \<le> money_from_score_accumulator s"
  shows "0 \<le> money_from_score_accumulator (update e io el s)"
proof -
  obtain dt s0 where u: "update_slowmo el s = (dt, s0)" by (cases "update_slowmo el s")
  with update_slowmo_frame [of el s] assms
  have a0: "0 \<le> money_from_score_accumulator s0" by simp
  show ?thesis
  proof (cases "state s0 = Playing")
    case False
    with u a0 show ?thesis
      by (simp add: update_def reset_economy)
  next
    case True
    let ?s2 = "handle_cheats_and_controls e io dt (grant_money_from_score s0)"
    let ?s5 = "handle_collisions e (integrate_bonuses e dt (integrate_ball e dt ?s2))"
    have a2: "0 \<le> money_from_score_accumulator ?s2"
      by (simp add: frame grant_money_mark)
    then have a5: "0 \<le> money_from_score_accumulator ?s5"
      by (simp add: frame)
    from u True a2 a5 show ?thesis
      by (simp add: update_def Let_def)
  qed
qed

lemma build_level_scores:
  "b \<in> set (bricks (build_level e cfg s)) \<Longrightarrow> 10 \<le> brick_score b"
  by (auto simp add: build_level_def Let_def make_brick_def)

lemma reset_scores: "b \<in> set (bricks (reset e cfg s)) \<Longrightarrow> 10 \<le> brick_score b"
  unfolding reset_def Let_def by (rule build_level_scores)

lemma update_scores:
  assumes "\<forall>b \<in> set (bricks s). 0 \<le> brick_score b"
  shows "\<forall>b \<in> set (bricks (update e io el s)). 0 \<le> brick_score b"
proof -
  obtain dt s0 where u: "update_slowmo el s = (dt, s0)" by (cases "update_slowmo el s")
  with update_slowmo_frame [of el s] have b0: "bricks s0 = bricks s" by simp
  show ?thesis
  proof (cases "state s0 = Playing")
    case False
    show ?thesis
    proof (cases "key_R io")
      case True
      with u False have "update e io el s = reset e (settings s0) s0"
        by (simp add: update_def)
      with reset_scores [of _ e "settings s0" s0] show ?thesis by fastforce
    next
      case nr: False
      with u False have "update e io el s = s0" by (simp add: update_def)
      with b0 assms show ?thesis by simp
    qed
  next
    case True
    let ?s2 = "handle_cheats_and_controls e io dt (grant_money_from_score s0)"
    let ?s5 = "handle_collisions e (integrate_bonuses e dt (integrate_ball e dt ?s2))"
    have m2: "map brick_score (bricks ?s2) = map brick_score (bricks s)"
      by (simp add: handle_cheats_scores frame b0)
    have m5: "map brick_score (bricks ?s5) = map brick_score (bricks s)"
      by (simp add: handle_collisions_scores frame m2)
    have ok: "\<forall>b \<in> set (bricks t). 0 \<le> brick_score b"
      if "map brick_score (bricks t) = map brick_score (bricks s)" for t
    proof -
      have eq: "brick_score ` set (bricks t) = brick_score ` set (bricks s)"
        using that by (metis set_map)
      show ?thesis
      proof
        fix b assume "b \<in> set (bricks t)"
        then have "brick_score b \<in> brick_score ` set (bricks s)"
          using eq by blast
        with assms show "0 \<le> brick_score b" by auto
      qed
    qed
    from u True ok [OF m2] ok [OF m5] show ?thesis
      by (simp add: update_def Let_def)
  qed
qed

subsection \<open>Invariants of the states of a run\<close>

lemma reset_state: "state (reset e cfg s) = Playing"
  by (simp add: reset_def build_level_def Let_def)

lemma reachable_economy:
  assumes "reachable e s"
  shows "0 \<le> money_from_score_accumulator s \<and> 0 \<le> total_money s \<and>
         balance s \<le> total_money s \<and> (\<forall>b \<in> set (bricks s). 0 \<le> brick_score b)"
  using assms
proof (induction rule: reachable.induct)
  case (start dflt)
  show ?case by (simp add: fresh_def)
next
  case (after_reset s cfg)
  have "\<forall>b \<in> set (bricks (reset e cfg s)). 0 \<le> brick_score b"
    using reset_scores [of _ e cfg s] by fastforce
  with after_reset.IH show ?case by (simp add: reset_economy)
next
  case (after_update s io el)
  then show ?case
    using update_mark [of s e io el] update_economy [of s e io el] update_scores [of s e io el]
    by blast
qed

lemma reachable_paddle:
  assumes "reachable e s"
  shows "(vx (rsize (carriage_world s)) \<le> vx (world_size s) \<longrightarrow> in_world s) \<and>
         (state s \<noteq> Playing \<longrightarrow> clamped s)"
  using assms
proof (induction rule: reachable.induct)
  case (start dflt)
  show ?case by (simp add: fresh_def in_world_def)
next
  case (after_reset s cfg)
  show ?case using reset_in_world [of e cfg s] by (simp add: reset_state)
next
  case (after_update s io el)
  show ?case
  proof (cases "state s = Playing")
    case True
    from update_playing_clamped [OF True, of e io el] show ?thesis
      by (simp add: clamped_in_world)
  next
    case False
    with after_update.IH have cl: "clamped s" by simp
    obtain dt s0 where u: "update_slowmo el s = (dt, s0)" by (cases "update_slowmo el s")
    with update_slowmo_frame [of el s] update_slowmo_state [of el s]
    have f: "carriage_world s0 = carriage_world s" "world_size s0 = world_size s"
      "state s0 = state s"
      by simp_all
    from clamped_cong [OF f(1,2)] cl have c0: "clamped s0" by simp
    show ?thesis
    proof (cases "key_R io")
      case True
      with u f False have "update e io el s = reset e (settings s0) s0"
        by (simp add: update_def)
      with reset_in_world [of e "settings s0" s0] show ?thesis
        by (simp add: reset_state)
    next
      case nr: False
      with u f False have "update e io el s = s0" by (simp add: update_def)
      with c0 show ?thesis by (simp add: clamped_in_world)
    qed
  qed
qed

lemma terminal_update:
  "state s \<noteq> Playing \<Longrightarrow> \<not> key_R io \<Longrightarrow> \<not> slowmo_mode s \<Longrightarrow> update e io el s = s"
  by (simp add: update_def update_slowmo_def)

subsection \<open>Velocity magnitude through the ball step\<close>

lemma LengthSquared_abs: "LengthSquared v = \<bar>vx v\<bar>\<^sup>2 + \<bar>vy v\<bar>\<^sup>2"
  by (simp add: LengthSquared_def power2_eq_square)

lemma LengthSquared_nonneg: "0 \<le> LengthSquared v"
  by (simp add: LengthSquared_def)

lemma Length_squared: "(Length v)\<^sup>2 = LengthSquared v"
  by (simp add: Length_def LengthSquared_nonneg)

lemma rescale_LengthSquared:
  assumes "0 < Length v"
  shows "LengthSquared (vscale v (c / Length v)) = c\<^sup>2"
proof -
  have "LengthSquared (vscale v (c / Length v)) = LengthSquared v * (c / Length v)\<^sup>2"
    by (simp add: LengthSquared_def vscale_def power2_eq_square algebra_simps)
  also have "\<dots> = (Length v)\<^sup>2 * (c\<^sup>2 / (Length v)\<^sup>2)"
    by (simp add: Length_squared power_divide)
  also have "\<dots> = c\<^sup>2"
    using assms by simp
  finally show ?thesis .
qed

lemma reflect_ball_abs:
  assumes "n = \<lparr>vx = 1, vy = 0\<rparr> \<or> n = \<lparr>vx = - 1, vy = 0\<rparr> \<or> n = \<lparr>vx = 0, vy = 1\<rparr>"
    and "0 \<le> ball_speed_cur s"
  shows "\<bar>vx (ball_vel (reflect_ball e n s))\<bar> = max \<bar>vx (ball_vel s)\<bar> ((15 / 100) * ball_speed_cur s)"
    and "\<bar>vy (ball_vel (reflect_ball e n s))\<bar> = max \<bar>vy (ball_vel s)\<bar> ((15 / 100) * ball_speed_cur s)"
  using assms
  by (auto simp add: reflect_ball_def Let_def c_rand_next_def vsub_def vscale_def sgnf_def
      abs_mult split: prod.splits if_splits)

lemma ball_walls_abs:
  assumes "0 \<le> ball_speed_cur s"
  shows "ball_vel (ball_walls e s) = ball_vel s \<or>
         (\<bar>vx (ball_vel (ball_walls e s))\<bar> = max \<bar>vx (ball_vel s)\<bar> ((15 / 100) * ball_speed_cur s) \<and>
          \<bar>vy (ball_vel (ball_walls e s))\<bar> = max \<bar>vy (ball_vel s)\<bar> ((15 / 100) * ball_speed_cur s))"
proof -
  let ?m = "(15 / 100) * ball_speed_cur s"
  define s1 where "s1 =
     (if vx (ball_pos s) < ball_radius s
      then reflect_ball e \<lparr>vx = 1, vy = 0\<rparr>
             (set_ball_x (vx (ball_pos s) + (ball_radius s - vx (ball_pos s)) * 2) s)
      else if vx (ball_pos s) > vx (world_size s) - ball_radius s
      then reflect_ball e \<lparr>vx = - 1, vy = 0\<rparr>
             (set_ball_x (vx (ball_pos s) - (vx (ball_pos s) - (vx (world_size s) - ball_radius s)) * 2) s)
      else s)"
  have w: "ball_walls e s =
     (if vy (ball_pos s1) < ball_radius s1
      then reflect_ball e \<lparr>vx = 0, vy = 1\<rparr>
             (set_ball_y (vy (ball_pos s1) + (ball_radius s1 - vy (ball_pos s1)) * 2) s1)
      else s1)"
    by (simp add: ball_walls_def Let_def s1_def)
  have sp1: "ball_speed_cur s1 = ball_speed_cur s"
    by (simp add: s1_def reflect_ball_fields set_ball_fields)
  have one: "ball_vel s1 = ball_vel s \<or>
         (\<bar>vx (ball_vel s1)\<bar> = max \<bar>vx (ball_vel s)\<bar> ?m \<and>
          \<bar>vy (ball_vel s1)\<bar> = max \<bar>vy (ball_vel s)\<bar> ?m)"
    using assms
    by (simp add: s1_def reflect_ball_abs reflect_ball_fields set_ball_fields)
  show ?thesis
  proof (cases "vy (ball_pos s1) < ball_radius s1")
    case False
    with w one show ?thesis by simp
  next
    case True
    let ?t = "set_ball_y (vy (ball_pos s1) + (ball_radius s1 - vy (ball_pos s1)) * 2) s1"
    from True w have e: "ball_walls e s = reflect_ball e \<lparr>vx = 0, vy = 1\<rparr> ?t" by simp
    have "0 \<le> ball_speed_cur ?t" using assms sp1 by (simp add: set_ball_fields)
    then have "\<bar>vx (ball_vel (ball_walls e s))\<bar> = max \<bar>vx (ball_vel s1)\<bar> ?m"
      and "\<bar>vy (ball_vel (ball_walls e s))\<bar> = max \<bar>vy (ball_vel s1)\<bar> ?m"
      using reflect_ball_abs [of "\<lparr>vx = 0, vy = 1\<rparr>" ?t e] e sp1
      by (simp_all add: set_ball_fields)
    with one show ?thesis by auto
  qed
qed

lemma max_floor_square:
  fixes a m :: real
  assumes "0 \<le> a"
  shows "a\<^sup>2 \<le> (max a m)\<^sup>2" and "(max a m)\<^sup>2 \<le> a\<^sup>2 + m\<^sup>2"
proof -
  show "a\<^sup>2 \<le> (max a m)\<^sup>2"
    using assms by (intro power_mono) simp_all
  show "(max a m)\<^sup>2 \<le> a\<^sup>2 + m\<^sup>2"
    by (cases "a \<le> m") (simp_all add: max_def)
qed

lemma ball_walls_LengthSquared:
  assumes "0 \<le> ball_speed_cur s"
  shows "LengthSquared (ball_vel s) \<le> LengthSquared (ball_vel (ball_walls e s))"
    and "LengthSquared (ball_vel (ball_walls e s)) \<le>
           LengthSquared (ball_vel s) + 2 * ((15 / 100) * ball_speed_cur s)\<^sup>2"
proof -
  let ?m = "(15 / 100) * ball_speed_cur s"
  from ball_walls_abs [OF assms, of e]
  consider "ball_vel (ball_walls e s) = ball_vel s"
    | "\<bar>vx (ball_vel (ball_walls e s))\<bar> = max \<bar>vx (ball_vel s)\<bar> ?m"
      "\<bar>vy (ball_vel (ball_walls e s))\<bar> = max \<bar>vy (ball_vel s)\<bar> ?m"
    by blast
  then have "LengthSquared (ball_vel s) \<le> LengthSquared (ball_vel (ball_walls e s)) \<and>
    LengthSquared (ball_vel (ball_walls e s)) \<le> LengthSquared (ball_vel s) + 2 * ?m\<^sup>2"
  proof cases
    case 1
    then show ?thesis by simp
  next
    case 2
    have x: "\<bar>vx (ball_vel s)\<bar>\<^sup>2 \<le> (max \<bar>vx (ball_vel s)\<bar> ?m)\<^sup>2"
      "(max \<bar>vx (ball_vel s)\<bar> ?m)\<^sup>2 \<le> \<bar>vx (ball_vel s)\<bar>\<^sup>2 + ?m\<^sup>2"
      by (rule max_floor_square, simp)+
    have y: "\<bar>vy (ball_vel s)\<bar>\<^sup>2 \<le> (max \<bar>vy (ball_vel s)\<bar> ?m)\<^sup>2"
      "(max \<bar>vy (ball_vel s)\<bar> ?m)\<^sup>2 \<le> \<bar>vy (ball_vel s)\<bar>\<^sup>2 + ?m\<^sup>2"
      by (rule max_floor_square, simp)+
    have "LengthSquared (ball_vel (ball_walls e s)) =
            (max \<bar>vx (ball_vel s)\<bar> ?m)\<^sup>2 + (max \<bar>vy (ball_vel s)\<bar> ?m)\<^sup>2"
      using 2 by (simp add: LengthSquared_abs [of "ball_vel (ball_walls e s)"])
    moreover have "LengthSquared (ball_vel s) = \<bar>vx (ball_vel s)\<bar>\<^sup>2 + \<bar>vy (ball_vel s)\<bar>\<^sup>2"
      by (rule LengthSquared_abs)
    ultimately show ?thesis using x y by linarith
  qed
  then show "LengthSquared (ball_vel s) \<le> LengthSquared (ball_vel (ball_walls e s))"
    and "LengthSquared (ball_vel (ball_walls e s)) \<le>
           LengthSquared (ball_vel s) + 2 * ((15 / 100) * ball_speed_cur s)\<^sup>2"
    by simp_all
qed

lemma ball_walls_unfloored:
  assumes "0 \<le> ball_speed_cur s"
    and "(15 / 100) * ball_speed_cur s \<le> \<bar>vx (ball_vel s)\<bar>"
    and "(15 / 100) * ball_speed_cur s \<le> \<bar>vy (ball_vel s)\<bar>"
  shows "LengthSquared (ball_vel (ball_walls e s)) = LengthSquared (ball_vel s)"
proof -
  from ball_walls_abs [OF assms(1), of e] assms(2,3)
  have "ball_vel (ball_walls e s) = ball_vel s \<or>
        (\<bar>vx (ball_vel (ball_walls e s))\<bar> = \<bar>vx (ball_vel s)\<bar> \<and>
         \<bar>vy (ball_vel (ball_walls e s))\<bar> = \<bar>vy (ball_vel s)\<bar>)"
    by (simp add: max_absorb1)
  then show ?thesis
  proof
    assume "ball_vel (ball_walls e s) = ball_vel s"
    then show ?thesis by simp
  next
    assume eq: "\<bar>vx (ball_vel (ball_walls e s))\<bar> = \<bar>vx (ball_vel s)\<bar> \<and>
         \<bar>vy (ball_vel (ball_walls e s))\<bar> = \<bar>vy (ball_vel s)\<bar>"
    have "LengthSquared (ball_vel (ball_walls e s)) =
            \<bar>vx (ball_vel (ball_walls e s))\<bar>\<^sup>2 + \<bar>vy (ball_vel (ball_walls e s))\<bar>\<^sup>2"
      by (rule LengthSquared_abs)
    also have "\<dots> = \<bar>vx (ball_vel s)\<bar>\<^sup>2 + \<bar>vy (ball_vel s)\<bar>\<^sup>2"
      using eq by (simp only:)
    also have "\<dots> = LengthSquared (ball_vel s)"
      by (rule LengthSquared_abs [symmetric])
    finally show ?thesis .
  qed
qed

lemma ball_advance_speed:
  assumes "1 / 1000000 < Length (ball_vel s)"
  shows "LengthSquared (ball_vel (ball_advance dt s)) = (ball_speed_cur (ball_advance dt s))\<^sup>2"
proof -
  from assms have pos: "0 < Length (ball_vel s)" by simp
  show ?thesis
    using assms rescale_LengthSquared [OF pos]
    by (simp add: ball_advance_def Let_def)
qed

lemma integrate_ball_kept:
  assumes "\<not> vy (ball_pos (ball_walls e (ball_advance dt s))) > vy (world_size s) + ball_radius s"
  shows "integrate_ball e dt s = ball_walls e (ball_advance dt s)"
  using assms
  by (simp add: integrate_ball_def ball_bottom_def frame ball_walls_fields ball_advance_fields)

subsection \<open>The bonus drawn for a destroyed brick\<close>




lemma count_destroyed_bonuses: "bonuses (count_destroyed s) = bonuses s"
  by (simp add: count_destroyed_def Let_def)

text \<open>The nuke-row cheat removes bricks without dropping anything.\<close>

lemma nuke_brick_bonuses: "bonuses (snd (nuke_brick b s)) = bonuses s"
  by (simp add: nuke_brick_def count_destroyed_bonuses)

text \<open>The brick loop applies \<open>hit_brick\<close> to an alive brick exactly when the ball collides with it.\<close>

lemma collide_bricks_hit:
  assumes "brick_alive b" and "collide_ball_with_rect (brick_rect b) s = Some (n, h)"
  shows "collide_bricks e (b # bs) s =
           (if \<not> pierce_mode (snd (hit_brick e b n s))
            then (fst (hit_brick e b n s) # bs, snd (hit_brick e b n s))
            else (fst (hit_brick e b n s) # fst (collide_bricks e bs (snd (hit_brick e b n s))),
                  snd (collide_bricks e bs (snd (hit_brick e b n s)))))"
  using assms by (simp split: prod.splits)

subsection \<open>The example states, step by step\<close>

lemma demo_game_fields:
  "settings demo_game = demo_settings"
  "world_size demo_game = \<lparr>vx = 800, vy = 600\<rparr>"
  "bricks demo_game = [demo_brick]"
  "brick_size demo_game = \<lparr>vx = 40, vy = 20\<rparr>"
  "destroyed_bricks_count demo_game = 0"
  "bonuses demo_game = []"
  "carriage_world demo_game = \<lparr>rpos = \<lparr>vx = 690, vy = 560\<rparr>, rsize = \<lparr>vx = 100, vy = 18\<rparr>\<rparr>"
  "ball_pos demo_game = \<lparr>vx = 400, vy = 300\<rparr>"
  "ball_vel demo_game = \<lparr>vx = 90, vy = - 120\<rparr>"
  "ball_radius demo_game = 10"
  "ball_speed_target demo_game = 150"
  "ball_speed_cur demo_game = 150"
  "state demo_game = Playing"
  "score demo_game = 0"
  "lives demo_game = 3"
  "combo_timer demo_game = 0"
  "combo_mult demo_game = 1"
  "pierce_mode demo_game = False"
  "pierce_timer demo_game = 0"
  "slowmo_mode demo_game = False"
  "slowmo_timer demo_game = 0"
  "cheat_enlarge_paddle demo_game = False"
  "cheat_extra_life demo_game = False"
  "cheat_speed_lock demo_game = False"
  "magnet_active demo_game = False"
  "magnet_timer demo_game = 0"
  "score_mult_active demo_game = False"
  "score_mult_timer demo_game = 0"
  "score_mult_value demo_game = 1"
  "cheat_invincible demo_game = False"
  "cheat_freeze_ball demo_game = False"
  "paused demo_game = False"
  "balance demo_game = 0"
  "total_money demo_game = 0"
  "money_from_score_accumulator demo_game = 0"
  "shop_message demo_game = []"
  "shop_message_timer demo_game = 0"
  "freeze_timer demo_game = 0"
  "rand_calls demo_game = 0"
  by (simp_all add: demo_game_def fresh_def make_rect_xywh_def)

lemma demo_brick_fields:
  "brick_rect demo_brick = \<lparr>rpos = \<lparr>vx = 380, vy = 40\<rparr>, rsize = \<lparr>vx = 40, vy = 20\<rparr>\<rparr>"
  "brick_alive demo_brick = True"
  "brick_score demo_brick = 16"
  "brick_bonus demo_brick = True"
  "hit_points demo_brick = 1"
  by (simp_all add: demo_brick_def make_rect_xywh_def)

lemma key_fields:
  "key_A keyD = False" "key_D keyD = True" "key_R keyD = False" "key_1 keyD = False"
  "key_2 keyD = False" "key_3 keyD = False" "key_C keyD = False" "key_X keyD = False"
  "key_T keyD = False" "key_Q keyD = False" "key_Y keyD = False" "key_E keyD = False"
  "key_N keyD = False"
  "key_A keyN = False" "key_D keyN = False" "key_R keyN = False" "key_1 keyN = False"
  "key_2 keyN = False" "key_3 keyN = False" "key_C keyN = False" "key_X keyN = False"
  "key_T keyN = False" "key_Q keyN = False" "key_Y keyN = False" "key_E keyN = False"
  "key_N keyN = True"
  "key_A no_keys = False" "key_D no_keys = False" "key_R no_keys = False" "key_1 no_keys = False"
  "key_2 no_keys = False" "key_3 no_keys = False" "key_C no_keys = False" "key_X no_keys = False"
  "key_T no_keys = False" "key_Q no_keys = False" "key_Y no_keys = False" "key_E no_keys = False"
  "key_N no_keys = False"
  by (simp_all add: keyD_def keyN_def no_keys_def)

lemma quiet_hotkeys:
  "\<not> key_1 io \<Longrightarrow> \<not> key_2 io \<Longrightarrow> \<not> key_3 io \<Longrightarrow> \<not> key_C io \<Longrightarrow> \<not> key_X io \<Longrightarrow>
   \<not> key_T io \<Longrightarrow> \<not> key_Q io \<Longrightarrow> \<not> key_Y io \<Longrightarrow> \<not> key_E io \<Longrightarrow> controls_hotkeys io s = s"
  by (simp add: controls_hotkeys_def hotkey_1_def hotkey_2_def hotkey_3_def hotkey_C_def
      hotkey_X_def hotkey_T_def hotkey_Q_def hotkey_Y_def hotkey_E_def buy_def)

lemma quiet_nuke: "\<not> key_N io \<Longrightarrow> controls_nuke io s = s"
  by (simp add: controls_nuke_def)

lemma quiet_timers:
  "\<not> cheat_extra_life s \<Longrightarrow> \<not> cheat_speed_lock s \<Longrightarrow> \<not> magnet_active s \<Longrightarrow>
   \<not> score_mult_active s \<Longrightarrow> ball_speed_cur s = ball_speed_target s \<Longrightarrow> \<not> pierce_mode s \<Longrightarrow>
   combo_timer s = 0 \<Longrightarrow> shop_message s = [] \<Longrightarrow> controls_timers dt s = s"
  by (simp add: controls_timers_def tick_shop_message_def tick_combo_def tick_pierce_def
      smooth_speed_def tick_score_mult_def tick_magnet_def cheat_one_shots_def Let_def)

text \<open>An ordinary frame: key D held for a tenth of a second, nothing is hit.\<close>

lemma demo_controls:
  "handle_cheats_and_controls demo_env keyD (1 / 10) (grant_money_from_score demo_game) =
     demo_after_controls"
proof -
  have g: "grant_money_from_score demo_game = demo_game"
    by (simp add: grant_money_from_score_def Let_def demo_game_fields)
  have p: "controls_paddle demo_env keyD (1 / 10) demo_game = demo_after_controls"
    by (simp add: controls_paddle_def Let_def demo_game_fields key_fields set_carriage_x_def
      set_carriage_w_def set_carriage_h_def clamp_carriage_def clampf_def carriage_speed_def
      carriage_height_def demo_after_controls_def)
  have t: "controls_timers (1 / 10) demo_after_controls = demo_after_controls"
    by (rule quiet_timers) (simp_all add: demo_after_controls_def demo_game_fields)
  show ?thesis
    by (simp add: handle_cheats_and_controls_def g p quiet_hotkeys quiet_nuke key_fields t)
qed

lemma demo_advance: "ball_advance (1 / 10) demo_after_controls = demo_after_ball"
  by (simp add: ball_advance_def Let_def demo_after_controls_def demo_after_ball_def
      demo_game_fields Length_def LengthSquared_def sqrt_22500 vscale_def vadd_def)

lemma demo_walls: "ball_walls demo_env demo_after_ball = demo_after_ball"
  by (simp add: ball_walls_def Let_def demo_after_controls_def demo_after_ball_def
      demo_game_fields)

lemma demo_ball: "integrate_ball demo_env (1 / 10) demo_after_controls = demo_after_ball"
proof -
  have b: "ball_bottom demo_after_ball = demo_after_ball"
    by (simp add: ball_bottom_def Let_def demo_after_controls_def demo_after_ball_def
        demo_game_fields)
  show ?thesis by (simp add: integrate_ball_def demo_advance demo_walls b)
qed

lemma demo_bonuses: "integrate_bonuses demo_env (1 / 10) demo_after_ball = demo_after_ball"
  by (simp add: integrate_bonuses_def demo_after_ball_def demo_after_controls_def demo_game_fields)

lemma demo_collisions: "handle_collisions demo_env demo_after_ball = demo_after_ball"
proof -
  have c: "collide_carriage demo_after_ball = demo_after_ball"
    by (simp add: collide_carriage_def collide_ball_with_rect_def Let_def clampf_def vsub_def
        LengthSquared_def demo_after_ball_def demo_after_controls_def demo_game_fields)
  have b: "collide_bricks demo_env [demo_brick] demo_after_ball = ([demo_brick], demo_after_ball)"
    by (simp add: collide_ball_with_rect_def Let_def clampf_def vsub_def demo_brick_fields
        LengthSquared_def demo_after_ball_def demo_after_controls_def demo_game_fields)
  have br: "bricks demo_after_ball = [demo_brick]"
    by (simp add: demo_after_ball_def demo_after_controls_def demo_game_fields)
  have "handle_collisions demo_env demo_after_ball =
          (case collide_bricks demo_env (bricks (collide_carriage demo_after_ball))
                  (collide_carriage demo_after_ball) of (bs, s2) \<Rightarrow> s2\<lparr>bricks := bs\<rparr>)"
    by (simp add: handle_collisions_def Let_def)
  also have "\<dots> = demo_after_ball\<lparr>bricks := [demo_brick]\<rparr>"
    by (simp only: c br b prod.case)
  also have "\<dots> = demo_after_ball"
    by (simp add: demo_after_ball_def demo_after_controls_def demo_game_def)
  finally show ?thesis .
qed

lemma ordinary_frame: "update demo_env keyD (1 / 10) demo_game = demo_after_ball"
proof -
  have s: "update_slowmo (1 / 10) demo_game = (1 / 10, demo_game)"
    by (simp add: update_slowmo_def demo_game_fields)
  have p: "\<not> paused demo_after_controls"
    by (simp add: demo_after_controls_def demo_game_fields)
  have a: "any_alive demo_after_ball"
    by (simp add: any_alive_def demo_after_ball_def demo_after_controls_def demo_game_fields
        demo_brick_fields)
  show ?thesis
    by (simp add: update_def s demo_game_fields demo_controls p demo_ball demo_bonuses
        demo_collisions a)
qed

text \<open>The last brick is nuked in the frame in which the last ball is lost.\<close>

lemma last_fields:
  "ball_pos last_brick_game = \<lparr>vx = 400, vy = 50\<rparr>"
  "ball_vel last_brick_game = \<lparr>vx = 0, vy = 150\<rparr>"
  "lives last_brick_game = 1"
  "carriage_world last_brick_game = carriage_world demo_game"
  "world_size last_brick_game = world_size demo_game"
  "bricks last_brick_game = bricks demo_game"
  "state last_brick_game = Playing"
  "slowmo_mode last_brick_game = False"
  "money_from_score_accumulator last_brick_game = 0"
  "score last_brick_game = 0"
  "score_mult_value last_brick_game = 1"
  "destroyed_bricks_count last_brick_game = 0"
  "cheat_enlarge_paddle last_brick_game = False"
  "cheat_invincible last_brick_game = False"
  by (simp_all add: last_brick_game_def demo_game_fields)

lemma last_controls:
  "handle_cheats_and_controls demo_env keyN 4 (grant_money_from_score last_brick_game) =
     last_after_controls"
proof -
  have g: "grant_money_from_score last_brick_game = last_brick_game"
    by (simp add: grant_money_from_score_def Let_def last_fields)
  have p: "controls_paddle demo_env keyN 4 last_brick_game = last_brick_game"
    by (simp add: controls_paddle_def Let_def last_fields demo_game_fields key_fields
      set_carriage_x_def set_carriage_w_def set_carriage_h_def clamp_carriage_def clampf_def
      carriage_speed_def carriage_height_def)
  have n: "controls_nuke keyN last_brick_game = last_after_controls"
    by (simp add: controls_nuke_def key_fields last_fields demo_game_fields nuke_brick_def
        demo_brick_fields count_destroyed_def Let_def tmod_def tdiv_def bricks_to_speedup_def
        last_after_controls_def)
  have t: "controls_timers 4 last_after_controls = last_after_controls"
    by (rule quiet_timers)
       (simp_all add: last_after_controls_def last_brick_game_def demo_game_fields)
  show ?thesis
    by (simp add: handle_cheats_and_controls_def g p quiet_hotkeys key_fields n t)
qed

lemma last_ball: "integrate_ball demo_env 4 last_after_controls = last_after_ball"
proof -
  let ?m = "last_after_controls\<lparr>ball_pos := \<lparr>vx = 400, vy = 650\<rparr>\<rparr>"
  have a: "ball_advance 4 last_after_controls = ?m"
    by (simp add: ball_advance_def Let_def last_after_controls_def last_brick_game_def
        demo_game_fields Length_def LengthSquared_def sqrt_22500 vscale_def vadd_def)
  have w: "ball_walls demo_env ?m = ?m"
    by (simp add: ball_walls_def Let_def last_after_controls_def last_brick_game_def
        demo_game_fields)
  have b: "ball_bottom ?m = last_after_ball"
    by (simp add: ball_bottom_def Let_def last_after_controls_def last_brick_game_def
        demo_game_fields last_after_ball_def)
  show ?thesis by (simp add: integrate_ball_def a w b)
qed

lemma last_bonuses: "integrate_bonuses demo_env 4 last_after_ball = last_after_ball"
  by (simp add: integrate_bonuses_def last_after_ball_def last_after_controls_def
      last_brick_game_def demo_game_fields)

lemma last_collisions: "handle_collisions demo_env last_after_ball = last_after_ball"
proof -
  have c: "collide_carriage last_after_ball = last_after_ball"
    by (simp add: collide_carriage_def collide_ball_with_rect_def Let_def clampf_def vsub_def
        LengthSquared_def last_after_ball_def last_after_controls_def last_brick_game_def
        demo_game_fields)
  have br: "bricks last_after_ball = [demo_brick\<lparr>brick_alive := False\<rparr>]"
    by (simp add: last_after_ball_def last_after_controls_def)
  show ?thesis
    by (simp add: handle_collisions_def Let_def c br)
qed

lemma last_frame: "update demo_env keyN 4 last_brick_game = last_after_ball\<lparr>state := Win\<rparr>"
proof -
  have s: "update_slowmo 4 last_brick_game = (4, last_brick_game)"
    by (simp add: update_slowmo_def last_fields)
  have p: "\<not> paused last_after_controls"
    by (simp add: last_after_controls_def last_brick_game_def demo_game_fields)
  have a: "\<not> any_alive last_after_ball"
    by (simp add: any_alive_def last_after_ball_def last_after_controls_def)
  show ?thesis
    by (simp add: update_def s last_fields last_controls p last_ball last_bonuses
        last_collisions a)
qed

text \<open>The ball reaches the top wall moving straight up.\<close>

lemma top_advance:
  "ball_advance (1 / 10) top_game = top_game\<lparr>ball_pos := \<lparr>vx = 400, vy = 0\<rparr>\<rparr>"
  by (simp add: ball_advance_def Let_def top_game_def demo_game_fields Length_def
      LengthSquared_def sqrt_22500 vscale_def vadd_def)

lemma top_walls:
  "ball_walls demo_env (top_game\<lparr>ball_pos := \<lparr>vx = 400, vy = 0\<rparr>\<rparr>) = top_after_ball"
  by (simp add: ball_walls_def Let_def top_game_def demo_game_fields set_ball_y_def
      reflect_ball_def c_rand_next_def vsub_def vscale_def sgnf_def demo_env_def
      top_after_ball_def)

lemma top_ball: "integrate_ball demo_env (1 / 10) top_game = top_after_ball"
proof -
  have b: "ball_bottom top_after_ball = top_after_ball"
    by (simp add: ball_bottom_def Let_def top_after_ball_def top_game_def demo_game_fields)
  show ?thesis by (simp add: integrate_ball_def top_advance top_walls b)
qed







text \<open>A slow-motion pickup and the frame in which the buff runs out.\<close>

lemma slow_pickup: "apply_bonus demo_env slow_bonus demo_game = slowed_game"
  by (simp add: apply_bonus_def slow_bonus_def slowed_game_def demo_game_fields)

lemma slowed_controls:
  "handle_cheats_and_controls demo_env no_keys (9 / 4)
     (grant_money_from_score (demo_game\<lparr>ball_speed_target := 60\<rparr>)) =
   demo_game\<lparr>ball_speed_target := 60, ball_speed_cur := 60\<rparr>"
proof -
  let ?g = "demo_game\<lparr>ball_speed_target := 60\<rparr>"
  have g: "grant_money_from_score ?g = ?g"
    by (simp add: grant_money_from_score_def Let_def demo_game_fields)
  have p: "controls_paddle demo_env no_keys (9 / 4) ?g = ?g"
    by (simp add: controls_paddle_def Let_def demo_game_fields key_fields
      set_carriage_x_def set_carriage_w_def set_carriage_h_def clamp_carriage_def clampf_def
      carriage_speed_def carriage_height_def)
  have t: "controls_timers (9 / 4) ?g = demo_game\<lparr>ball_speed_target := 60, ball_speed_cur := 60\<rparr>"
    by (simp add: controls_timers_def tick_shop_message_def tick_combo_def tick_pierce_def
      smooth_speed_def tick_score_mult_def tick_magnet_def cheat_one_shots_def Let_def
      demo_game_fields)
  show ?thesis
    by (simp add: handle_cheats_and_controls_def g p quiet_hotkeys quiet_nuke key_fields t)
qed

lemma slowed_ball:
  "integrate_ball demo_env (9 / 4) (demo_game\<lparr>ball_speed_target := 60, ball_speed_cur := 60\<rparr>) =
     slowed_after"
proof -
  let ?g = "demo_game\<lparr>ball_speed_target := 60, ball_speed_cur := 60\<rparr>"
  have a: "ball_advance (9 / 4) ?g = slowed_after"
    by (simp add: ball_advance_def Let_def slowed_after_def demo_game_fields Length_def
        LengthSquared_def sqrt_22500 vscale_def vadd_def)
  have w: "ball_walls demo_env slowed_after = slowed_after"
    by (simp add: ball_walls_def Let_def slowed_after_def demo_game_fields)
  have b: "ball_bottom slowed_after = slowed_after"
    by (simp add: ball_bottom_def Let_def slowed_after_def demo_game_fields)
  show ?thesis by (simp add: integrate_ball_def a w b)
qed

lemma slowed_collisions: "handle_collisions demo_env slowed_after = slowed_after"
proof -
  have c: "collide_carriage slowed_after = slowed_after"
    by (simp add: collide_carriage_def collide_ball_with_rect_def Let_def clampf_def vsub_def
        LengthSquared_def slowed_after_def demo_game_fields)
  have b: "collide_bricks demo_env [demo_brick] slowed_after = ([demo_brick], slowed_after)"
    by (simp add: collide_ball_with_rect_def Let_def clampf_def vsub_def demo_brick_fields
        LengthSquared_def slowed_after_def demo_game_fields)
  have br: "bricks slowed_after = [demo_brick]"
    by (simp add: slowed_after_def demo_game_fields)
  have "handle_collisions demo_env slowed_after =
          (case collide_bricks demo_env (bricks (collide_carriage slowed_after))
                  (collide_carriage slowed_after) of (bs, s2) \<Rightarrow> s2\<lparr>bricks := bs\<rparr>)"
    by (simp add: handle_collisions_def Let_def)
  also have "\<dots> = slowed_after\<lparr>bricks := [demo_brick]\<rparr>"
    by (simp only: c br b prod.case)
  also have "\<dots> = slowed_after"
    by (simp add: slowed_after_def demo_game_def)
  finally show ?thesis .
qed

lemma slowed_frame: "update demo_env no_keys 5 slowed_game = slowed_after"
proof -
  have s: "update_slowmo 5 slowed_game = (9 / 4, demo_game\<lparr>ball_speed_target := 60\<rparr>)"
    by (simp add: update_slowmo_def slowed_game_def slowmo_factor_def)
       (simp add: demo_game_def fresh_def)
  have p: "\<not> paused (demo_game\<lparr>ball_speed_target := 60, ball_speed_cur := 60\<rparr>)"
    by (simp add: demo_game_fields)
  have bo: "integrate_bonuses demo_env (9 / 4) slowed_after = slowed_after"
    by (simp add: integrate_bonuses_def slowed_after_def demo_game_fields)
  have a: "any_alive slowed_after"
    by (simp add: any_alive_def slowed_after_def demo_game_fields demo_brick_fields)
  show ?thesis
    by (simp add: update_def s demo_game_fields slowed_controls p slowed_ball bo
        slowed_collisions a)
qed

section \<open>Purchases\<close>

text \<open>
  C1 (as amended). A purchase returns true exactly when \<open>0 < cost\<close> and \<open>cost \<le> balance\<close>.
  On success the balance is debited by exactly \<open>cost\<close> and the confirmation message is
  queued with the full display duration. When the cost is positive and the funds are
  insufficient, the balance is unchanged and the rejection message is queued. When the cost
  is not positive, the call returns false and leaves the whole state as it is: no message
  is queued on that path.
\<close>

theorem try_purchase_cases:
  "fst (try_purchase cost s) = (0 < cost \<and> cost \<le> balance s) \<and>
   (0 < cost \<and> cost \<le> balance s \<longrightarrow>
      snd (try_purchase cost s) =
        s\<lparr>balance := balance s - cost,
          shop_message := ''Purchased for $'' @ to_string cost @ ''!'',
          shop_message_timer := shop_message_duration\<rparr>) \<and>
   (0 < cost \<and> balance s < cost \<longrightarrow>
      snd (try_purchase cost s) =
        s\<lparr>shop_message := ''Not enough $'', shop_message_timer := shop_message_duration\<rparr>) \<and>
   (cost \<le> 0 \<longrightarrow> snd (try_purchase cost s) = s)"
  by (simp add: try_purchase_def)

text \<open>
  The three paths at concrete inputs: balance 20 and cost 10, balance 5 and cost 10,
  cost 0.
\<close>

theorem try_purchase_cases_witness:
  "try_purchase 10 (fresh demo_settings\<lparr>balance := 20\<rparr>) =
     (True, fresh demo_settings\<lparr>balance := 10, shop_message := ''Purchased for $10!'',
                                shop_message_timer := 25 / 10\<rparr>) \<and>
   try_purchase 10 (fresh demo_settings\<lparr>balance := 5\<rparr>) =
     (False, fresh demo_settings\<lparr>balance := 5, shop_message := ''Not enough $'',
                                 shop_message_timer := 25 / 10\<rparr>) \<and>
   try_purchase 0 (fresh demo_settings\<lparr>balance := 5\<rparr>) = (False, fresh demo_settings\<lparr>balance := 5\<rparr>)"
  using try_purchase_cases [of 10 "fresh demo_settings\<lparr>balance := 20\<rparr>"]
        try_purchase_cases [of 10 "fresh demo_settings\<lparr>balance := 5\<rparr>"]
        try_purchase_cases [of 0 "fresh demo_settings\<lparr>balance := 5\<rparr>"]
  by (simp add: prod_eq_iff to_string_10 shop_message_duration_def)

text \<open>
  C1 as stated fails for a cost that is not positive: a purchase with cost 0 on a new
  object returns false without queueing a rejection message; the message stays empty and
  its timer stays 0.
\<close>

theorem try_purchase_silent_counterexample:
  "fst (try_purchase 0 (fresh demo_settings)) = False \<and>
   shop_message (snd (try_purchase 0 (fresh demo_settings))) = [] \<and>
   shop_message_timer (snd (try_purchase 0 (fresh demo_settings))) = 0"
  by (simp add: try_purchase_def fresh_def)

section \<open>Score to currency\<close>

text \<open>
  C2. The conversion mark is never negative in a run: it is 0 in a new object and after a
  reset, and every update keeps it non-negative (\<open>reachable_economy\<close>, \<open>update_mark\<close>).
  For every such state in which the score exceeds the mark, the conversion adds exactly
  \<open>(score - mark) div score_per_dollar\<close> dollars to the balance and advances the mark by
  exactly that many times \<open>score_per_dollar\<close>, so the remainder carries over.
\<close>

theorem grant_money_from_score_converts:
  assumes "0 \<le> money_from_score_accumulator s"
    and "money_from_score_accumulator s < score s"
  shows "balance (grant_money_from_score s) =
           balance s + (score s - money_from_score_accumulator s) div score_per_dollar \<and>
         money_from_score_accumulator (grant_money_from_score s) =
           money_from_score_accumulator s +
             ((score s - money_from_score_accumulator s) div score_per_dollar) * score_per_dollar"
proof -
  let ?d = "(score s - money_from_score_accumulator s) div score_per_dollar"
  have t: "tdiv (score s - money_from_score_accumulator s) score_per_dollar = ?d"
    using assms by (simp add: tdiv_nonneg score_per_dollar_def)
  have nn: "0 \<le> ?d"
    using assms by (simp add: score_per_dollar_def pos_imp_zdiv_nonneg_iff)
  show ?thesis
  proof (cases "0 < ?d")
    case True
    with assms t show ?thesis
      by (simp add: grant_money_from_score_def Let_def add_money_def)
  next
    case False
    with nn have "?d = 0" by simp
    with assms t show ?thesis
      by (simp add: grant_money_from_score_def Let_def)
  qed
qed

text \<open>Mark 0, 100 points per dollar, score 250: the balance gains 2 and the mark is 200.\<close>

theorem grant_money_from_score_converts_witness:
  "score_per_dollar = 100 \<and>
   money_from_score_accumulator (fresh demo_settings\<lparr>score := 250\<rparr>) = 0 \<and>
   balance (fresh demo_settings\<lparr>score := 250\<rparr>) = 0 \<and>
   balance (grant_money_from_score (fresh demo_settings\<lparr>score := 250\<rparr>)) = 2 \<and>
   money_from_score_accumulator (grant_money_from_score (fresh demo_settings\<lparr>score := 250\<rparr>)) = 200"
  using grant_money_from_score_converts [of "fresh demo_settings\<lparr>score := 250\<rparr>"]
  by (simp add: fresh_def score_per_dollar_def)

section \<open>Brick damage\<close>



section \<open>Ball speed\<close>

text \<open>
  C4 as stated fails. The ball moves straight up at speed 150 and reaches the top wall:
  the reflection raises the zero horizontal component to the floor of 0.15 times the
  speed, and after the integration step the velocity has squared length 23006.25 and
  length above 151, while the current speed is 150.
\<close>

theorem wall_floor_counterexample:
  "ball_speed_cur (integrate_ball demo_env (1 / 10) top_game) = 150 \<and>
   LengthSquared (ball_vel (integrate_ball demo_env (1 / 10) top_game)) = 92025 / 4 \<and>
   151 < Length (ball_vel (integrate_ball demo_env (1 / 10) top_game))"
proof -
  have v: "ball_vel top_after_ball = \<lparr>vx = - (45 / 2), vy = 150\<rparr>"
    and c: "ball_speed_cur top_after_ball = 150"
    by (simp_all add: top_after_ball_def top_game_def demo_game_fields)
  have l: "LengthSquared (ball_vel top_after_ball) = 92025 / 4"
    by (simp add: v LengthSquared_def)
  have "(151::real)\<^sup>2 < 92025 / 4" by simp
  then have "151 < sqrt (92025 / 4)" by (rule real_less_rsqrt)
  then have "151 < Length (ball_vel top_after_ball)" by (simp only: Length_def l)
  with l c show ?thesis by (simp add: top_ball)
qed

text \<open>
  C4 (as amended). In a frame in which the ball is not lost, whose incoming velocity is
  longer than \<open>10\<^sup>-\<^sup>6\<close> and whose speed is not negative, the velocity after the
  integration step is at least as long as the current speed, and its square is at most
  \<open>1 + 2 \<cdot> 0.15\<^sup>2\<close> times the square of the current speed. The length equals the current
  speed when no wall was touched in the step, and also when both components of the
  rescaled velocity are at least 0.15 times the speed, so that no reflection raises a
  component to the floor. The rescaling to the current speed happens before the position
  advances; a component raised by a reflection stays until the next frame.
\<close>

theorem integrate_ball_speed_bounds:
  assumes "1 / 1000000 < Length (ball_vel s)"
    and "0 \<le> ball_speed_cur (integrate_ball e dt s)"
    and "\<not> vy (ball_pos (ball_walls e (ball_advance dt s))) > vy (world_size s) + ball_radius s"
  shows "ball_speed_cur (integrate_ball e dt s) \<le> Length (ball_vel (integrate_ball e dt s)) \<and>
         (Length (ball_vel (integrate_ball e dt s)))\<^sup>2 \<le>
           (1 + 2 * (15 / 100)\<^sup>2) * (ball_speed_cur (integrate_ball e dt s))\<^sup>2 \<and>
         (ball_walls e (ball_advance dt s) = ball_advance dt s \<or>
          ((15 / 100) * ball_speed_cur (integrate_ball e dt s) \<le> \<bar>vx (ball_vel (ball_advance dt s))\<bar> \<and>
           (15 / 100) * ball_speed_cur (integrate_ball e dt s) \<le> \<bar>vy (ball_vel (ball_advance dt s))\<bar>)
          \<longrightarrow> Length (ball_vel (integrate_ball e dt s)) = ball_speed_cur (integrate_ball e dt s))"
proof -
  let ?a = "ball_advance dt s"
  let ?w = "ball_walls e ?a"
  let ?c = "ball_speed_cur ?a"
  have i: "integrate_ball e dt s = ?w" by (rule integrate_ball_kept [OF assms(3)])
  have c: "ball_speed_cur ?w = ?c" by (simp add: ball_walls_fields)
  from assms(2) i c have nn: "0 \<le> ?c" by simp
  have a: "LengthSquared (ball_vel ?a) = ?c\<^sup>2" by (rule ball_advance_speed [OF assms(1)])
  from ball_walls_LengthSquared [OF nn, of e] a
  have lo: "?c\<^sup>2 \<le> LengthSquared (ball_vel ?w)"
    and hi: "LengthSquared (ball_vel ?w) \<le> ?c\<^sup>2 + 2 * ((15 / 100) * ?c)\<^sup>2"
    by simp_all
  have "sqrt (?c\<^sup>2) \<le> sqrt (LengthSquared (ball_vel ?w))"
    using lo by (rule real_sqrt_le_mono)
  with nn have 1: "?c \<le> Length (ball_vel ?w)" by (simp add: Length_def)
  have eq: "(1 + 2 * (15 / 100)\<^sup>2) * ?c\<^sup>2 = ?c\<^sup>2 + 2 * ((15 / 100) * ?c)\<^sup>2"
    by (simp add: power2_eq_square algebra_simps)
  have 2: "(Length (ball_vel ?w))\<^sup>2 \<le> (1 + 2 * (15 / 100)\<^sup>2) * ?c\<^sup>2"
    using hi by (simp only: Length_squared eq)
  have 3: "Length (ball_vel ?w) = ?c"
    if "?w = ?a \<or> ((15 / 100) * ?c \<le> \<bar>vx (ball_vel ?a)\<bar> \<and> (15 / 100) * ?c \<le> \<bar>vy (ball_vel ?a)\<bar>)"
  proof -
    from that have "LengthSquared (ball_vel ?w) = LengthSquared (ball_vel ?a)"
      using ball_walls_unfloored [OF nn, of e] by auto
    with a nn show ?thesis by (simp add: Length_def)
  qed
  from 1 2 3 show ?thesis by (simp add: i c)
qed

text \<open>
  In the ordinary frame no wall is touched and the length is the speed, 150. In the frame
  at the top wall the bounds hold with a length strictly between.
\<close>

theorem integrate_ball_speed_bounds_witness:
  "Length (ball_vel demo_after_controls) = 150 \<and>
   ball_walls demo_env (ball_advance (1 / 10) demo_after_controls) =
     ball_advance (1 / 10) demo_after_controls \<and>
   ball_speed_cur (integrate_ball demo_env (1 / 10) demo_after_controls) = 150 \<and>
   Length (ball_vel (integrate_ball demo_env (1 / 10) demo_after_controls)) = 150 \<and>
   150 \<le> Length (ball_vel (integrate_ball demo_env (1 / 10) top_game)) \<and>
   (Length (ball_vel (integrate_ball demo_env (1 / 10) top_game)))\<^sup>2 \<le> 47025 / 2"
proof -
  have l: "Length (ball_vel demo_after_controls) = 150"
    by (simp add: demo_after_controls_def demo_game_fields Length_def LengthSquared_def sqrt_22500)
  have lt: "Length (ball_vel top_game) = 150"
    by (simp add: top_game_def Length_def LengthSquared_def sqrt_22500)
  have c: "ball_speed_cur demo_after_ball = 150" "vy (ball_pos demo_after_ball) = 288"
    "world_size demo_after_controls = \<lparr>vx = 800, vy = 600\<rparr>" "ball_radius demo_after_controls = 10"
    by (simp_all add: demo_after_ball_def demo_after_controls_def demo_game_fields)
  have ct: "ball_speed_cur top_after_ball = 150" "vy (ball_pos top_after_ball) = 20"
    "world_size top_game = \<lparr>vx = 800, vy = 600\<rparr>" "ball_radius top_game = 10"
    by (simp_all add: top_after_ball_def top_game_def demo_game_fields)
  from integrate_ball_speed_bounds [of demo_after_controls demo_env "1 / 10"]
       integrate_ball_speed_bounds [of top_game demo_env "1 / 10"]
  show ?thesis
    by (simp add: l lt c ct demo_ball demo_advance demo_walls top_ball top_advance top_walls
        power_divide)
qed

section \<open>Losing the ball\<close>



section \<open>Win and Lose\<close>

text \<open>
  C6. An update that starts in Win or Lose and gets no restart request changes nothing
  (\<open>terminal_update\<close>). But the state does not always become Lose when the lives reach 0:
  the win check at the end of \<^verbatim>\<open>update\<close> is not guarded by the state. With one life and
  one brick left, the N key destroys the brick at the ball's height and a long frame
  (4 seconds) carries the ball below the world. The integration step sets Lose with 0
  lives, and the same update ends in state Win.
\<close>

theorem win_overrides_lose:
  "state last_brick_game = Playing \<and>
   lives last_brick_game = 1 \<and>
   state (integrate_ball demo_env 4
            (handle_cheats_and_controls demo_env keyN 4 (grant_money_from_score last_brick_game))) = Lose \<and>
   lives (update demo_env keyN 4 last_brick_game) = 0 \<and>
   \<not> any_alive (update demo_env keyN 4 last_brick_game) \<and>
   state (update demo_env keyN 4 last_brick_game) = Win"
  by (simp add: last_frame last_controls last_ball last_fields any_alive_def)
     (simp add: last_after_ball_def last_after_controls_def)

section \<open>Bonus drop\<close>



section \<open>Paddle bounds\<close>

text \<open>
  C8. After the update of a frame the left edge of the paddle lies in
  \<open>[0, worldWidth - paddleWidth]\<close>, whenever that interval is not empty, that is whenever
  the paddle is not wider than the world. This holds after every update that starts in
  state Playing, whatever the keys and the time step, and an update that starts in Win or
  Lose keeps it (it either leaves the paddle alone or resets it to the centre). Over whole
  runs, from a new object through any resets and updates: \<open>reachable_paddle\<close>.
\<close>

theorem carriage_stays_in_world:
  assumes "state s = Playing \<or> in_world s"
    and "vx (rsize (carriage_world (update e io el s))) \<le> vx (world_size (update e io el s))"
  shows "0 \<le> vx (rpos (carriage_world (update e io el s))) \<and>
         vx (rpos (carriage_world (update e io el s))) \<le>
           vx (world_size (update e io el s)) - vx (rsize (carriage_world (update e io el s)))"
proof (cases "state s = Playing")
  case True
  from clamped_in_world [OF update_playing_clamped [OF True] assms(2)]
  show ?thesis by (simp add: in_world_def)
next
  case False
  with assms(1) have iw: "in_world s" by simp
  obtain dt s0 where u: "update_slowmo el s = (dt, s0)" by (cases "update_slowmo el s")
  with update_slowmo_frame [of el s] update_slowmo_state [of el s]
  have f: "carriage_world s0 = carriage_world s" "world_size s0 = world_size s" "state s0 = state s"
    by simp_all
  show ?thesis
  proof (cases "key_R io")
    case True
    with u f False have eq: "update e io el s = reset e (settings s0) s0"
      by (simp add: update_def)
    from reset_in_world [of e "settings s0" s0] assms(2) eq show ?thesis
      by (simp add: in_world_def)
  next
    case nr: False
    with u f False have "update e io el s = s0"
      by (simp add: update_def)
    with f iw show ?thesis by (simp add: in_world_def)
  qed
qed

text \<open>
  The paddle of width 100 stands at 690 in a world of width 800 and is pushed right for a
  tenth of a second at 500 units per second: it stops at 700.
\<close>

theorem carriage_stays_in_world_witness:
  "state demo_game = Playing \<and>
   vx (rsize (carriage_world (update demo_env keyD (1 / 10) demo_game))) = 100 \<and>
   vx (world_size (update demo_env keyD (1 / 10) demo_game)) = 800 \<and>
   vx (rpos (carriage_world (update demo_env keyD (1 / 10) demo_game))) = 700"
  using carriage_stays_in_world [of demo_game demo_env keyD "1 / 10"]
  by (simp add: ordinary_frame demo_game_fields)
     (simp add: demo_after_ball_def demo_after_controls_def demo_game_fields)

section \<open>Slow motion\<close>

text \<open>
  C9. Consuming a slow-motion bonus switches the buff on for 5 seconds and multiplies the
  target ball speed by 0.4. When the buff runs out at the head of a later update, only the
  flag and the timer are cleared: the target speed is the same before and after.
\<close>

theorem slowmo_speed_not_restored:
  "(bonus_type b = SlowMo \<longrightarrow>
      apply_bonus e b s =
        s\<lparr>slowmo_mode := True, slowmo_timer := 5,
          ball_speed_target := ball_speed_target s * (4 / 10)\<rparr>) \<and>
   (slowmo_mode s \<and> slowmo_timer s - elapsed \<le> 0 \<longrightarrow>
      snd (update_slowmo elapsed s) = s\<lparr>slowmo_timer := 0, slowmo_mode := False\<rparr> \<and>
      ball_speed_target (snd (update_slowmo elapsed s)) = ball_speed_target s)"
  by (simp add: apply_bonus_def update_slowmo_def)

text \<open>
  At target speed 150 the pickup leaves 60. Five seconds later, in a frame with no key
  down, the buff is off and the target speed at the end of the whole update is still 60.
\<close>

theorem slowmo_speed_not_restored_witness:
  "bonus_type slow_bonus = SlowMo \<and>
   ball_speed_target demo_game = 150 \<and>
   apply_bonus demo_env slow_bonus demo_game =
     demo_game\<lparr>slowmo_mode := True, slowmo_timer := 5, ball_speed_target := 60\<rparr> \<and>
   snd (update_slowmo 5 slowed_game) = slowed_game\<lparr>slowmo_timer := 0, slowmo_mode := False\<rparr> \<and>
   \<not> slowmo_mode (update demo_env no_keys 5 slowed_game) \<and>
   ball_speed_target (update demo_env no_keys 5 slowed_game) = 60"
  using slowmo_speed_not_restored [of slow_bonus demo_env demo_game 5]
        slowmo_speed_not_restored [of slow_bonus demo_env slowed_game 5]
  by (simp add: slowed_frame demo_game_fields)
     (simp add: slow_bonus_def slowed_game_def slowed_after_def demo_game_fields)

section \<open>Reset and the economy\<close>

text \<open>
  C10. A reset sets the balance to 0 and leaves the lifetime total as it was, while the
  conversion mark and the score are set to 0. After a reset the balance is at most the
  total exactly when the total carried over is not negative, so the reset alone does not
  establish \<open>balance \<le> total_money\<close>. A new object has balance 0 and total 0, and every
  update keeps \<open>0 \<le> total_money\<close> and \<open>balance \<le> total_money\<close> together, so the inequality
  holds in every state reached from a new object (\<open>reachable_economy\<close>).
\<close>

theorem reset_keeps_total_money:
  "balance (reset e cfg s) = 0 \<and>
   total_money (reset e cfg s) = total_money s \<and>
   money_from_score_accumulator (reset e cfg s) = 0 \<and>
   score (reset e cfg s) = 0 \<and>
   (balance (reset e cfg s) \<le> total_money (reset e cfg s)) = (0 \<le> total_money s) \<and>
   balance (fresh dflt) = 0 \<and> total_money (fresh dflt) = 0 \<and>
   (0 \<le> total_money s \<and> balance s \<le> total_money s \<longrightarrow>
      0 \<le> total_money (update e io el s) \<and>
      balance (update e io el s) \<le> total_money (update e io el s))"
  using update_economy [of s e io el]
  by (simp add: reset_economy fresh_def)

text \<open>
  With 20 dollars in hand and 30 earned, a reset leaves balance 0 and total 30, and an
  update keeps the balance within the total; with a total of -1 the reset leaves the
  balance above the total.
\<close>

theorem reset_keeps_total_money_witness:
  "balance (reset demo_env demo_settings (demo_game\<lparr>balance := 20, total_money := 30\<rparr>)) = 0 \<and>
   total_money (reset demo_env demo_settings (demo_game\<lparr>balance := 20, total_money := 30\<rparr>)) = 30 \<and>
   balance (update demo_env keyD (1 / 10) (demo_game\<lparr>balance := 20, total_money := 30\<rparr>)) \<le>
     total_money (update demo_env keyD (1 / 10) (demo_game\<lparr>balance := 20, total_money := 30\<rparr>)) \<and>
   \<not> balance (reset demo_env demo_settings (demo_game\<lparr>total_money := - 1\<rparr>)) \<le>
       total_money (reset demo_env demo_settings (demo_game\<lparr>total_money := - 1\<rparr>))"
  using reset_keeps_total_money
          [of demo_env demo_settings "demo_game\<lparr>balance := 20, total_money := 30\<rparr>" demo_settings
              keyD "1 / 10"]
        reset_keeps_total_money
          [of demo_env demo_settings "demo_game\<lparr>total_money := - 1\<rparr>" demo_settings keyD "1 / 10"]
  by simp

end
